theory Spec2Isabelle
  imports Main
begin

section \<open>Strings and POSIX paths\<close>

text \<open>
  A JavaScript string is modelled by \<^typ>\<open>string\<close>, holding its UTF-8 bytes; a byte
  buffer is a \<^typ>\<open>string\<close> too. The functions of \<^verbatim>\<open>node:path\<close> that the
  sources call (\<^verbatim>\<open>resolve\<close>, \<^verbatim>\<open>join\<close>, \<^verbatim>\<open>dirname\<close>,
  \<^verbatim>\<open>basename\<close>) are the POSIX ones.
\<close>

type_synonym path = string

text \<open>The truthiness of a string, and of a string that may be \<^verbatim>\<open>undefined\<close>.\<close>

definition truthy :: "string \<Rightarrow> bool" where
  "truthy s = (s \<noteq> [])"

definition truthy_opt :: "string option \<Rightarrow> bool" where
  "truthy_opt s = (case s of None \<Rightarrow> False | Some x \<Rightarrow> truthy x)"

fun split_on :: "char \<Rightarrow> string \<Rightarrow> string list" where
  "split_on c [] = [[]]"
| "split_on c (x # xs) =
     (if x = c then [] # split_on c xs
      else (case split_on c xs of
              [] \<Rightarrow> [[x]]
            | s # ss \<Rightarrow> (x # s) # ss))"

fun join_with :: "string \<Rightarrow> string list \<Rightarrow> string" where
  "join_with sep [] = []"
| "join_with sep [s] = s"
| "join_with sep (s # t # ss) = s @ sep @ join_with sep (t # ss)"

text \<open>
  \<^verbatim>\<open>normalizeString(path, allowAboveRoot)\<close>: empty segments and \<^verbatim>\<open>.\<close> are
  dropped, \<^verbatim>\<open>..\<close> removes the segment before it, and is kept only where nothing is
  left to remove and the path is relative. The second argument is the stack of the
  segments kept so far, the last one first.
\<close>

fun normalizeSegments :: "bool \<Rightarrow> string list \<Rightarrow> string list \<Rightarrow> string list" where
  "normalizeSegments allowAboveRoot stack [] = rev stack"
| "normalizeSegments allowAboveRoot stack (s # ss) =
     (if s = [] \<or> s = ''.'' then normalizeSegments allowAboveRoot stack ss
      else if s = ''..'' then
        (case stack of
           t # ts \<Rightarrow>
             if t \<noteq> ''..'' then normalizeSegments allowAboveRoot ts ss
             else if allowAboveRoot then normalizeSegments allowAboveRoot (''..'' # stack) ss
             else normalizeSegments allowAboveRoot stack ss
         | [] \<Rightarrow>
             if allowAboveRoot then normalizeSegments allowAboveRoot [''..''] ss
             else normalizeSegments allowAboveRoot [] ss)
      else normalizeSegments allowAboveRoot (s # stack) ss)"

definition normalizeString :: "string \<Rightarrow> bool \<Rightarrow> string" where
  "normalizeString p allowAboveRoot =
     join_with ''/'' (normalizeSegments allowAboveRoot [] (split_on (CHR ''/'') p))"

definition isAbsolute :: "path \<Rightarrow> bool" where
  "isAbsolute p = (case p of [] \<Rightarrow> False | c # _ \<Rightarrow> c = CHR ''/'')"

definition normalize :: "path \<Rightarrow> path" where
  "normalize p =
     (if p = [] then ''.''
      else
        let trailingSeparator = (last p = CHR ''/'');
            q = normalizeString p (\<not> isAbsolute p)
        in if q = [] then
             (if isAbsolute p then ''/'' else if trailingSeparator then ''./'' else ''.'')
           else
             (let q' = (if trailingSeparator then q @ ''/'' else q)
              in if isAbsolute p then ''/'' @ q' else q'))"

definition join :: "path list \<Rightarrow> path" where
  "join paths =
     (let parts = filter (\<lambda>p. p \<noteq> []) paths
      in if parts = [] then ''.'' else normalize (join_with ''/'' parts))"

text \<open>
  \<^verbatim>\<open>resolve(...paths)\<close> walks its arguments from the last to the first, then the
  working directory, until the path built so far is absolute.
\<close>

fun resolve_loop :: "path list \<Rightarrow> path \<Rightarrow> bool \<Rightarrow> path \<times> bool" where
  "resolve_loop [] resolvedPath resolvedAbsolute = (resolvedPath, resolvedAbsolute)"
| "resolve_loop (p # ps) resolvedPath resolvedAbsolute =
     (if resolvedAbsolute then (resolvedPath, resolvedAbsolute)
      else if p = [] then resolve_loop ps resolvedPath resolvedAbsolute
      else resolve_loop ps (p @ ''/'' @ resolvedPath) (isAbsolute p))"

definition resolvePath :: "path \<Rightarrow> path list \<Rightarrow> path" where
  "resolvePath cwd paths =
     (case resolve_loop (rev paths @ [cwd]) [] False of
        (resolvedPath, resolvedAbsolute) \<Rightarrow>
          let q = normalizeString resolvedPath (\<not> resolvedAbsolute)
          in if resolvedAbsolute then ''/'' @ q
             else if q \<noteq> [] then q else ''.'')"

text \<open>
  \<^verbatim>\<open>basename(path)\<close>: the trailing slashes are skipped, and the result is what stands
  after the last slash before them.
\<close>

definition basename :: "path \<Rightarrow> string" where
  "basename p =
     rev (takeWhile (\<lambda>c. c \<noteq> CHR ''/'') (dropWhile (\<lambda>c. c = CHR ''/'') (rev p)))"

text \<open>
  \<^verbatim>\<open>dirname(path)\<close>: the scan runs from the end down to index 1, skips the trailing
  slashes and the last segment, and cuts at the slash it meets then.
\<close>

definition dirname :: "path \<Rightarrow> path" where
  "dirname p =
     (if p = [] then ''.''
      else
        let r = dropWhile (\<lambda>c. c \<noteq> CHR ''/'')
                  (dropWhile (\<lambda>c. c = CHR ''/'') (rev (tl p)));
            end = length r
        in if r = [] then (if isAbsolute p then ''/'' else ''.'')
           else if isAbsolute p \<and> end = 1 then ''//''
           else take end p)"

section \<open>The file system and the exceptions\<close>

text \<open>
  The file system maps absolute paths, written without redundant slashes or dots, to their
  nodes: a regular file with its bytes, or a directory. There are no symbolic links.
\<close>

datatype node = File string | Directory

type_synonym filesystem = "path \<rightharpoonup> node"

text \<open>
  What the code throws: \<^verbatim>\<open>FatalError(message, code?)\<close>, the builder's
  \<^verbatim>\<open>FunctionsNoRoutesError\<close>, the runtime's \<^verbatim>\<open>TypeError\<close>, a system error of
  \<^verbatim>\<open>node:fs\<close> with its code and, where the failing call has one, its path, and any
  other \<^verbatim>\<open>Error\<close>.
\<close>

datatype exn =
    FatalError string "int option"
  | FunctionsNoRoutesError string
  | TypeError string
  | SystemError string "path option"
  | Error string

subsection \<open>Looking a path up\<close>

text \<open>
  \<^verbatim>\<open>node:fs\<close> hands a path to the system as it is, and the system walks it component
  by component, from the root or from the working directory. A directory on the way is
  held as the list of its components, the innermost first. Every component but the last
  must lead through a directory: a regular file on the way, also before a trailing slash,
  is \<^verbatim>\<open>ENOTDIR\<close>, a missing node is \<^verbatim>\<open>ENOENT\<close>.
\<close>

definition abs_path :: "string list \<Rightarrow> path" where
  "abs_path comps = ''/'' @ join_with ''/'' (rev comps)"

definition next_dir :: "string list \<Rightarrow> string \<Rightarrow> string list" where
  "next_dir cur c =
     (if c = [] \<or> c = ''.'' then cur
      else if c = ''..'' then tl cur
      else c # cur)"

datatype lookup = Found "string list" node | NoEntry | NotDirectory

fun walk :: "filesystem \<Rightarrow> string list \<Rightarrow> string list \<Rightarrow> lookup" where
  "walk fs cur [] =
     (case fs (abs_path cur) of
        None \<Rightarrow> NoEntry
      | Some n \<Rightarrow> Found cur n)"
| "walk fs cur (c # cs) =
     (case fs (abs_path cur) of
        None \<Rightarrow> NoEntry
      | Some (File _) \<Rightarrow> NotDirectory
      | Some Directory \<Rightarrow> walk fs (next_dir cur c) cs)"

definition start_dir :: "path \<Rightarrow> path \<Rightarrow> string list" where
  "start_dir wd p =
     (if isAbsolute p then []
      else rev (filter (\<lambda>c. c \<noteq> []) (split_on (CHR ''/'') wd)))"

definition lookup_path :: "path \<Rightarrow> filesystem \<Rightarrow> path \<Rightarrow> lookup" where
  "lookup_path wd fs p =
     (if p = [] then NoEntry
      else walk fs (start_dir wd p) (split_on (CHR ''/'') p))"

text \<open>The paths that a lookup may consult: they depend on the path alone.\<close>

fun consulted_from :: "string list \<Rightarrow> string list \<Rightarrow> path list" where
  "consulted_from cur [] = [abs_path cur]"
| "consulted_from cur (c # cs) = abs_path cur # consulted_from (next_dir cur c) cs"

definition consulted :: "path \<Rightarrow> path \<Rightarrow> path list" where
  "consulted wd p =
     (if p = [] then [] else consulted_from (start_dir wd p) (split_on (CHR ''/'') p))"

definition existsSync :: "path \<Rightarrow> filesystem \<Rightarrow> path \<Rightarrow> bool" where
  "existsSync wd fs p =
     (case lookup_path wd fs p of
        Found _ _ \<Rightarrow> True
      | _ \<Rightarrow> False)"

subsection \<open>Decoding UTF-8\<close>

text \<open>
  A string read with the encoding \<^verbatim>\<open>utf-8\<close> is the decoding of the bytes of the file.
  Strings being held as UTF-8, a well-formed sequence decodes to itself; every maximal
  ill-formed part is replaced by U+FFFD, whose bytes are \<^verbatim>\<open>EF BF BD\<close>. The decoder is
  either between two characters, or inside one: it then holds the bytes seen, the number of
  bytes still to come, and the range allowed for the next one.
\<close>

definition replacement :: string where
  "replacement = [CHR 0xEF, CHR 0xBF, CHR 0xBD]"

datatype utf8_state = Idle | Inside string nat nat nat

definition utf8_start :: "char \<Rightarrow> string \<times> utf8_state" where
  "utf8_start c =
     (let n = (of_char c :: nat)
      in if n < 0x80 then ([c], Idle)
         else if 0xC2 \<le> n \<and> n \<le> 0xDF then ([], Inside [c] 1 0x80 0xBF)
         else if 0xE0 \<le> n \<and> n \<le> 0xEF then
           ([], Inside [c] 2 (if n = 0xE0 then 0xA0 else 0x80) (if n = 0xED then 0x9F else 0xBF))
         else if 0xF0 \<le> n \<and> n \<le> 0xF4 then
           ([], Inside [c] 3 (if n = 0xF0 then 0x90 else 0x80) (if n = 0xF4 then 0x8F else 0xBF))
         else (replacement, Idle))"

fun utf8_decode_from :: "utf8_state \<Rightarrow> string \<Rightarrow> string" where
  "utf8_decode_from Idle [] = []"
| "utf8_decode_from (Inside seen needed lower upper) [] = replacement"
| "utf8_decode_from Idle (c # cs) =
     (case utf8_start c of (out, s) \<Rightarrow> out @ utf8_decode_from s cs)"
| "utf8_decode_from (Inside seen needed lower upper) (c # cs) =
     (if lower \<le> (of_char c :: nat) \<and> (of_char c :: nat) \<le> upper then
        (if needed = 1 then seen @ [c] @ utf8_decode_from Idle cs
         else utf8_decode_from (Inside (seen @ [c]) (needed - 1) 0x80 0xBF) cs)
      else
        (case utf8_start c of (out, s) \<Rightarrow> replacement @ out @ utf8_decode_from s cs))"

definition utf8_decode :: "string \<Rightarrow> string" where
  "utf8_decode bytes = utf8_decode_from Idle bytes"

subsection \<open>Reading and writing\<close>

text \<open>
  \<^verbatim>\<open>readFileSync(path, { encoding: "utf-8" })\<close>. A directory can be opened for
  reading; it is the read that fails then, with an error that carries no path.
\<close>

definition readFileSync :: "path \<Rightarrow> filesystem \<Rightarrow> path \<Rightarrow> exn + string" where
  "readFileSync wd fs p =
     (case lookup_path wd fs p of
        NoEntry \<Rightarrow> Inl (SystemError ''ENOENT'' (Some p))
      | NotDirectory \<Rightarrow> Inl (SystemError ''ENOTDIR'' (Some p))
      | Found _ Directory \<Rightarrow> Inl (SystemError ''EISDIR'' None)
      | Found _ (File bytes) \<Rightarrow> Inr (utf8_decode bytes))"

text \<open>
  \<^verbatim>\<open>writeFileSync(path, data)\<close> opens with the flag \<^verbatim>\<open>w\<close>, which creates the
  file or truncates it. The system walks to the directory of the last component; a last
  component that is a directory, or that a slash follows, is \<^verbatim>\<open>EISDIR\<close>. The result
  is the absolute path of the file that is written.
\<close>

definition open_for_write :: "path \<Rightarrow> filesystem \<Rightarrow> path \<Rightarrow> exn + path" where
  "open_for_write wd fs p =
     (let comps = split_on (CHR ''/'') p;
          body = rev (dropWhile (\<lambda>c. c = []) (rev comps))
      in if p = [] then Inl (SystemError ''ENOENT'' (Some p))
         else if body = [] then Inl (SystemError ''EISDIR'' (Some p))
         else
           (case walk fs (start_dir wd p) (butlast body) of
              NoEntry \<Rightarrow> Inl (SystemError ''ENOENT'' (Some p))
            | NotDirectory \<Rightarrow> Inl (SystemError ''ENOTDIR'' (Some p))
            | Found _ (File _) \<Rightarrow> Inl (SystemError ''ENOTDIR'' (Some p))
            | Found dir Directory \<Rightarrow>
                if length body < length comps \<or> last body = ''.'' \<or> last body = ''..''
                then Inl (SystemError ''EISDIR'' (Some p))
                else if fs (abs_path (last body # dir)) = Some Directory
                then Inl (SystemError ''EISDIR'' (Some p))
                else Inr (abs_path (last body # dir))))"

definition writeFileSync :: "path \<Rightarrow> filesystem \<Rightarrow> path \<Rightarrow> string \<Rightarrow> exn + filesystem" where
  "writeFileSync wd fs p bytes =
     (case open_for_write wd fs p of
        Inl e \<Rightarrow> Inl e
      | Inr a \<Rightarrow> Inr (fs(a \<mapsto> File bytes)))"

section \<open>Bundles, modules and the worker descriptor\<close>

datatype CfModuleType = m_esm | m_commonjs | m_compiled_wasm | m_text | m_buffer

datatype BundleType = bundle_esm | bundle_commonjs

fun module_type_of :: "BundleType \<Rightarrow> CfModuleType" where
  "module_type_of bundle_esm = m_esm"
| "module_type_of bundle_commonjs = m_commonjs"

text \<open>The content of a module is a \<^verbatim>\<open>string\<close> or a \<^verbatim>\<open>Buffer\<close>.\<close>

datatype module_content = StringContent string | BufferContent string

record CfModule =
  name :: string
  content :: module_content
  module_type :: "CfModuleType option"

text \<open>
  Of a \<^verbatim>\<open>BundleResult\<close> the packager reads three fields. \<^verbatim>\<open>bundleType\<close> may be
  missing: the code writes \<^verbatim>\<open>bundleType || "esm"\<close>.
\<close>

record BundleResult =
  resolvedEntryPointPath :: path
  modules :: "CfModule list"
  bundleType :: "BundleType option"

text \<open>
  The bindings and the settings of \<^verbatim>\<open>CfWorkerInit\<close>; a value, where there is one, is
  kept as its serialised text.
\<close>

type_synonym config_value = string

record CfWorkerBindings =
  vars :: "config_value option"
  kv_namespaces :: "config_value option"
  wasm_modules :: "config_value option"
  text_blobs :: "config_value option"
  data_blobs :: "config_value option"
  durable_objects :: "config_value option"
  queues :: "config_value option"
  r2_buckets :: "config_value option"
  d1_databases :: "config_value option"
  services :: "config_value option"
  analytics_engine_datasets :: "config_value option"
  dispatch_namespaces :: "config_value option"
  logfwdr :: "config_value option"
  unsafe :: "config_value option"

record CfWorkerInit =
  worker_name :: string
  main :: CfModule
  worker_modules :: "CfModule list"
  worker_bindings :: CfWorkerBindings
  migrations :: "config_value option"
  compatibility_date :: "config_value option"
  compatibility_flags :: "config_value option"
  usage_model :: "config_value option"
  keepVars :: "config_value option"
  logpush :: "config_value option"

subsection \<open>Form data and its multipart encoding\<close>

text \<open>
  An entry of a \<^verbatim>\<open>FormData\<close>: a name, and a value that is a string or a file with
  its name, its type and its bytes.
\<close>

datatype form_value = StringValue string | FileValue string string string

record FormDataEntry =
  entry_name :: string
  entry_value :: form_value

type_synonym FormData = "FormDataEntry list"

definition CRLF :: string where
  "CRLF = [CHR 0x0D, CHR 0x0A]"

text \<open>
  The two helpers of the encoder: \<^verbatim>\<open>normalizeLinefeeds\<close> turns every line break, be it
  CR LF, a lone LF or a lone CR, into CR LF; \<^verbatim>\<open>escape\<close> writes a line feed, a carriage
  return and a double quote as \<^verbatim>\<open>%0A\<close>, \<^verbatim>\<open>%0D\<close> and \<^verbatim>\<open>%22\<close>.
\<close>

fun normalizeLinefeeds :: "string \<Rightarrow> string" where
  "normalizeLinefeeds [] = []"
| "normalizeLinefeeds [c] = (if c = CHR 0x0D \<or> c = CHR 0x0A then CRLF else [c])"
| "normalizeLinefeeds (c # d # ds) =
     (if c = CHR 0x0D \<and> d = CHR 0x0A then CRLF @ normalizeLinefeeds ds
      else if c = CHR 0x0D \<or> c = CHR 0x0A then CRLF @ normalizeLinefeeds (d # ds)
      else c # normalizeLinefeeds (d # ds))"

fun escape :: "string \<Rightarrow> string" where
  "escape [] = []"
| "escape (c # cs) =
     (if c = CHR 0x0A then ''%0A'' @ escape cs
      else if c = CHR 0x0D then ''%0D'' @ escape cs
      else if c = CHR 0x22 then ''%22'' @ escape cs
      else c # escape cs)"

text \<open>
  A part after its delimiter line. A string value follows the name after an empty line,
  with its line breaks normalised. A file gives its name, unless that is empty, and its
  type, \<^verbatim>\<open>application/octet-stream\<close> if that is empty; its bytes follow as they are.
\<close>

definition entry_part :: "FormDataEntry \<Rightarrow> string" where
  "entry_part e =
     ''Content-Disposition: form-data; name='' @ [CHR 0x22]
       @ escape (normalizeLinefeeds (entry_name e)) @ [CHR 0x22] @
     (case entry_value e of
        StringValue v \<Rightarrow> CRLF @ CRLF @ normalizeLinefeeds v @ CRLF
      | FileValue fname ftype bytes \<Rightarrow>
          (if fname = [] then [] else ''; filename='' @ [CHR 0x22] @ escape fname @ [CHR 0x22]) @
          CRLF @ ''Content-Type: '' @
          (if ftype = [] then ''application/octet-stream'' else ftype) @
          CRLF @ CRLF @ bytes @ CRLF)"

definition encode_entry :: "string \<Rightarrow> FormDataEntry \<Rightarrow> string" where
  "encode_entry boundary e = ''--'' @ boundary @ CRLF @ entry_part e"

text \<open>
  \<^verbatim>\<open>new Response(formData).blob()\<close>, then the bytes of the blob. A multipart body is
  framed by a boundary. The form data do not determine it: the \<^verbatim>\<open>Response\<close> of undici
  draws one from \<^verbatim>\<open>Math.random()\<close> for every body it encodes, so it is an input here.
\<close>

definition Response_blob :: "string \<Rightarrow> FormData \<Rightarrow> string" where
  "Response_blob boundary form =
     concat (map (encode_entry boundary) form) @ ''--'' @ boundary @ ''--''"

subsection \<open>The packager: create-worker-bundle-contents.ts\<close>

text \<open>
  \<^verbatim>\<open>createWorkerUploadForm\<close> is imported from a module that is not among the sources:
  the packager takes it as a parameter.
\<close>

definition mainModule :: "path \<Rightarrow> filesystem \<Rightarrow> BundleResult \<Rightarrow> exn + CfModule" where
  "mainModule cwd fs workerBundle =
     (case readFileSync cwd fs (resolvedEntryPointPath workerBundle) of
        Inl e \<Rightarrow> Inl e
      | Inr text \<Rightarrow>
          Inr \<lparr> name = basename (resolvedEntryPointPath workerBundle),
                content = StringContent text,
                module_type =
                  Some (case bundleType workerBundle of
                          None \<Rightarrow> m_esm
                        | Some t \<Rightarrow> module_type_of t) \<rparr>)"

definition worker :: "CfModule \<Rightarrow> BundleResult \<Rightarrow> CfWorkerInit" where
  "worker m workerBundle =
     \<lparr> worker_name = name m,
       main = m,
       worker_modules = modules workerBundle,
       worker_bindings =
         \<lparr> vars = None, kv_namespaces = None, wasm_modules = None, text_blobs = None,
           data_blobs = None, durable_objects = None, queues = None, r2_buckets = None,
           d1_databases = None, services = None, analytics_engine_datasets = None,
           dispatch_namespaces = None, logfwdr = None, unsafe = None \<rparr>,
       migrations = None,
       compatibility_date = None,
       compatibility_flags = None,
       usage_model = None,
       keepVars = None,
       logpush = None \<rparr>"

definition createWorkerBundleFormData ::
  "(CfWorkerInit \<Rightarrow> FormData) \<Rightarrow> path \<Rightarrow> filesystem \<Rightarrow> BundleResult \<Rightarrow> exn + FormData" where
  "createWorkerBundleFormData createWorkerUploadForm cwd fs workerBundle =
     (case mainModule cwd fs workerBundle of
        Inl e \<Rightarrow> Inl e
      | Inr m \<Rightarrow> Inr (createWorkerUploadForm (worker m workerBundle)))"

definition createUploadWorkerBundleContents ::
  "(CfWorkerInit \<Rightarrow> FormData) \<Rightarrow> string \<Rightarrow> path \<Rightarrow> filesystem \<Rightarrow> BundleResult \<Rightarrow> exn + string" where
  "createUploadWorkerBundleContents createWorkerUploadForm boundary cwd fs workerBundle =
     (case createWorkerBundleFormData createWorkerUploadForm cwd fs workerBundle of
        Inl e \<Rightarrow> Inl e
      | Inr workerBundleFormData \<Rightarrow> Inr (Response_blob boundary workerBundleFormData))"

subsection \<open>A form builder after the specification\<close>

text \<open>
  Modelled from the spec: \<^verbatim>\<open>createWorkerUploadForm\<close> (create-worker-upload-form.ts is
  not among the sources). The specification asks for one part per module, named, typed and
  carrying the content as bytes, and one part carrying the metadata of the descriptor as a
  JSON text; every setting that is unset is left out of it.
\<close>

definition hex_digit :: "nat \<Rightarrow> char" where
  "hex_digit n = (if n < 10 then char_of (48 + n) else char_of (87 + n))"

fun json_quote_chars :: "string \<Rightarrow> string" where
  "json_quote_chars [] = []"
| "json_quote_chars (c # cs) =
     (if c = CHR 0x22 \<or> c = CHR 0x5C then CHR 0x5C # c # json_quote_chars cs
      else if c = CHR 0x08 then CHR 0x5C # CHR ''b'' # json_quote_chars cs
      else if c = CHR 0x0C then CHR 0x5C # CHR ''f'' # json_quote_chars cs
      else if c = CHR 0x0A then CHR 0x5C # CHR ''n'' # json_quote_chars cs
      else if c = CHR 0x0D then CHR 0x5C # CHR ''r'' # json_quote_chars cs
      else if c = CHR 0x09 then CHR 0x5C # CHR ''t'' # json_quote_chars cs
      else if (of_char c :: nat) < 0x20 then
        CHR 0x5C # CHR ''u'' # CHR ''0'' # CHR ''0''
          # hex_digit (of_char c div 16) # hex_digit (of_char c mod 16) # json_quote_chars cs
      else c # json_quote_chars cs)"

definition json_quote :: "string \<Rightarrow> string" where
  "json_quote s = [CHR 0x22] @ json_quote_chars s @ [CHR 0x22]"

fun toMimeType :: "CfModuleType option \<Rightarrow> string" where
  "toMimeType (Some m_esm) = ''application/javascript+module''"
| "toMimeType (Some m_commonjs) = ''application/javascript''"
| "toMimeType (Some m_compiled_wasm) = ''application/wasm''"
| "toMimeType (Some m_text) = ''text/plain''"
| "toMimeType (Some m_buffer) = ''application/octet-stream''"
| "toMimeType None = ''application/octet-stream''"

fun content_bytes :: "module_content \<Rightarrow> string" where
  "content_bytes (StringContent s) = s"
| "content_bytes (BufferContent b) = b"

definition module_entry :: "CfModule \<Rightarrow> FormDataEntry" where
  "module_entry m =
     \<lparr> entry_name = name m,
       entry_value = FileValue (name m) (toMimeType (module_type m)) (content_bytes (content m)) \<rparr>"

definition metadata_entry :: "CfWorkerInit \<Rightarrow> FormDataEntry" where
  "metadata_entry w =
     \<lparr> entry_name = ''metadata'',
       entry_value =
         StringValue (''{'' @ json_quote ''main_module'' @ '':'' @ json_quote (name (main w)) @ ''}'') \<rparr>"

definition createWorkerUploadForm_spec :: "CfWorkerInit \<Rightarrow> FormData" where
  "createWorkerUploadForm_spec w =
     metadata_entry w # map module_entry (main w # worker_modules w)"

section \<open>JSON values and \<^verbatim>\<open>JSON.parse\<close>\<close>

text \<open>
  The handler parses its \<^verbatim>\<open>bindings\<close> argument with \<^verbatim>\<open>JSON.parse\<close> and reads the
  keys of one property of the result. A number keeps its text; an object keeps its
  properties in the order of their first occurrence, a later duplicate replacing the value of
  the earlier one.
\<close>

datatype json =
    JNull
  | JBool bool
  | JNumber string
  | JString string
  | JArray "json list"
  | JObject "(string \<times> json) list"

datatype token =
    TLBrace | TRBrace | TLBracket | TRBracket | TColon | TComma
  | TString string | TNumber string | TTrue | TFalse | TNull

definition is_ws :: "char \<Rightarrow> bool" where
  "is_ws c = (c = CHR 0x20 \<or> c = CHR 0x09 \<or> c = CHR 0x0A \<or> c = CHR 0x0D)"

definition is_digit :: "char \<Rightarrow> bool" where
  "is_digit c = (48 \<le> (of_char c :: nat) \<and> (of_char c :: nat) \<le> 57)"

definition digit_val :: "char \<Rightarrow> nat" where
  "digit_val c = of_char c - 48"

definition hex_val :: "char \<Rightarrow> nat option" where
  "hex_val c =
     (let n = (of_char c :: nat)
      in if 48 \<le> n \<and> n \<le> 57 then Some (n - 48)
         else if 65 \<le> n \<and> n \<le> 70 then Some (n - 55)
         else if 97 \<le> n \<and> n \<le> 102 then Some (n - 87)
         else None)"

fun hex4 :: "string \<Rightarrow> nat option" where
  "hex4 (a # b # c # d # _) =
     (case (hex_val a, hex_val b, hex_val c, hex_val d) of
        (Some x, Some y, Some z, Some w) \<Rightarrow> Some (((x * 16 + y) * 16 + z) * 16 + w)
      | _ \<Rightarrow> None)"
| "hex4 _ = None"

text \<open>The UTF-8 bytes of a code point; a lone surrogate is encoded like any other.\<close>

definition utf8_encode :: "nat \<Rightarrow> string" where
  "utf8_encode n =
     (if n < 0x80 then [char_of n]
      else if n < 0x800 then [char_of (0xC0 + n div 0x40), char_of (0x80 + n mod 0x40)]
      else if n < 0x10000 then
        [char_of (0xE0 + n div 0x1000), char_of (0x80 + (n div 0x40) mod 0x40),
         char_of (0x80 + n mod 0x40)]
      else
        [char_of (0xF0 + n div 0x40000), char_of (0x80 + (n div 0x1000) mod 0x40),
         char_of (0x80 + (n div 0x40) mod 0x40), char_of (0x80 + n mod 0x40)])"

definition simple_escape :: "char \<Rightarrow> char option" where
  "simple_escape e =
     (if e = CHR 0x22 then Some (CHR 0x22)
      else if e = CHR 0x5C then Some (CHR 0x5C)
      else if e = CHR ''/'' then Some (CHR ''/'')
      else if e = CHR ''b'' then Some (CHR 0x08)
      else if e = CHR ''f'' then Some (CHR 0x0C)
      else if e = CHR ''n'' then Some (CHR 0x0A)
      else if e = CHR ''r'' then Some (CHR 0x0D)
      else if e = CHR ''t'' then Some (CHR 0x09)
      else None)"

text \<open>
  The low surrogate that an escape \<^verbatim>\<open>\uXXXX\<close> at the head of the input denotes, if
  there is one: it joins the high surrogate before it into one code point.
\<close>

definition low_surrogate :: "string \<Rightarrow> nat option" where
  "low_surrogate cs =
     (case cs of
        b # u # hs \<Rightarrow>
          if b = CHR 0x5C \<and> u = CHR ''u'' then
            (case hex4 hs of
               Some m \<Rightarrow> if 0xDC00 \<le> m \<and> m < 0xE000 then Some m else None
             | None \<Rightarrow> None)
          else None
      | _ \<Rightarrow> None)"

text \<open>
  The characters of a string literal after its opening quote: the decoded string and the
  input after the closing quote. The first argument holds what is decoded so far, reversed.
\<close>

fun lex_string :: "string \<Rightarrow> string \<Rightarrow> (string \<times> string) option" where
  "lex_string acc [] = None"
| "lex_string acc [c] = (if c = CHR 0x22 then Some (rev acc, []) else None)"
| "lex_string acc (c # e # es) =
     (if c = CHR 0x22 then Some (rev acc, e # es)
      else if c = CHR 0x5C then
        (if e = CHR ''u'' then
           (case hex4 es of
              None \<Rightarrow> None
            | Some n \<Rightarrow>
                if 0xD800 \<le> n \<and> n < 0xDC00 then
                  (case low_surrogate (drop 4 es) of
                     Some m \<Rightarrow>
                       lex_string
                         (rev (utf8_encode (0x10000 + (n - 0xD800) * 0x400 + (m - 0xDC00))) @ acc)
                         (drop 10 es)
                   | None \<Rightarrow> lex_string (rev (utf8_encode n) @ acc) (drop 4 es))
                else lex_string (rev (utf8_encode n) @ acc) (drop 4 es))
         else
           (case simple_escape e of
              None \<Rightarrow> None
            | Some d \<Rightarrow> lex_string (d # acc) es))
      else if (of_char c :: nat) < 0x20 then None
      else lex_string (c # acc) (e # es))"

lemma lex_string_length:
  "lex_string acc cs = Some (s, rest) \<Longrightarrow> length rest < Suc (length cs)"
proof (induction acc cs rule: lex_string.induct)
  case (1 acc)
  then show ?case by simp
next
  case (2 acc c)
  then show ?case by (simp split: if_splits)
next
  case (3 acc c e es)
  show ?case
  proof (cases "c = CHR 0x22")
    case True
    with 3 show ?thesis by auto
  next
    case nq: False
    show ?thesis
    proof (cases "c = CHR 0x5C")
      case bs: True
      show ?thesis
      proof (cases "e = CHR ''u''")
        case u: True
        from "3.prems" nq bs u obtain n where n: "hex4 es = Some n"
          by (auto split: option.splits)
        show ?thesis
        proof (cases "0xD800 \<le> n \<and> n < 0xDC00")
          case hi: True
          show ?thesis
          proof (cases "low_surrogate (drop 4 es)")
            case None
            with "3.prems" nq bs u n hi
            have "lex_string (rev (utf8_encode n) @ acc) (drop 4 es) = Some (s, rest)"
              by simp
            from "3.IH"(1) [OF nq bs u n hi None this] show ?thesis by simp
          next
            case (Some m)
            with "3.prems" nq bs u n hi
            have "lex_string
                    (rev (utf8_encode (0x10000 + (n - 0xD800) * 0x400 + (m - 0xDC00))) @ acc)
                    (drop 10 es) = Some (s, rest)"
              by simp
            from "3.IH"(2) [OF nq bs u n hi Some this] show ?thesis by simp
          qed
        next
          case lo: False
          with "3.prems" nq bs u n
          have "lex_string (rev (utf8_encode n) @ acc) (drop 4 es) = Some (s, rest)"
            by auto
          from "3.IH"(3) [OF nq bs u n lo this] show ?thesis by simp
        qed
      next
        case nu: False
        from "3.prems" nq bs nu obtain d where d: "simple_escape e = Some d"
          by (auto split: option.splits)
        with "3.prems" nq bs nu have "lex_string (d # acc) es = Some (s, rest)" by simp
        from "3.IH"(4) [OF nq bs nu d this] show ?thesis by simp
      qed
    next
      case nbs: False
      with "3.prems" nq have c: "\<not> (of_char c :: nat) < 0x20"
        and l: "lex_string (c # acc) (e # es) = Some (s, rest)"
        by (auto split: if_splits)
      from "3.IH"(5) [OF nq nbs c l] show ?thesis by simp
    qed
  qed
qed

text \<open>The grammar of a number: sign, integer part, fraction, exponent.\<close>

definition is_num_char :: "char \<Rightarrow> bool" where
  "is_num_char c =
     (is_digit c \<or> c = CHR ''+'' \<or> c = CHR ''-'' \<or> c = CHR ''.'' \<or> c = CHR ''e'' \<or> c = CHR ''E'')"

definition valid_exp :: "string \<Rightarrow> bool" where
  "valid_exp s =
     (case s of
        [] \<Rightarrow> True
      | c # r \<Rightarrow>
          (c = CHR ''e'' \<or> c = CHR ''E'') \<and>
          (let ds = (case r of
                       [] \<Rightarrow> []
                     | g # t \<Rightarrow> if g = CHR ''+'' \<or> g = CHR ''-'' then t else r)
           in ds \<noteq> [] \<and> list_all is_digit ds))"

definition valid_frac :: "string \<Rightarrow> bool" where
  "valid_frac s =
     (case s of
        [] \<Rightarrow> True
      | c # r \<Rightarrow>
          if c = CHR ''.'' then takeWhile is_digit r \<noteq> [] \<and> valid_exp (dropWhile is_digit r)
          else valid_exp s)"

definition valid_int :: "string \<Rightarrow> bool" where
  "valid_int s =
     (case s of
        [] \<Rightarrow> False
      | c # r \<Rightarrow>
          if c = CHR ''0'' then valid_frac r
          else is_digit c \<and> valid_frac (dropWhile is_digit r))"

definition valid_number :: "string \<Rightarrow> bool" where
  "valid_number s =
     (case s of
        [] \<Rightarrow> False
      | c # r \<Rightarrow> if c = CHR ''-'' then valid_int r else valid_int s)"

definition cons_token :: "token \<Rightarrow> token list option \<Rightarrow> token list option" where
  "cons_token t r = (case r of None \<Rightarrow> None | Some ts \<Rightarrow> Some (t # ts))"

function lex :: "string \<Rightarrow> token list option" where
  "lex [] = Some []"
| "lex (c # cs) =
     (if is_ws c then lex cs
      else if c = CHR ''{'' then cons_token TLBrace (lex cs)
      else if c = CHR ''}'' then cons_token TRBrace (lex cs)
      else if c = CHR ''['' then cons_token TLBracket (lex cs)
      else if c = CHR '']'' then cons_token TRBracket (lex cs)
      else if c = CHR '':'' then cons_token TColon (lex cs)
      else if c = CHR '','' then cons_token TComma (lex cs)
      else if c = CHR 0x22 then
        (case lex_string [] cs of
           None \<Rightarrow> None
         | Some (s, rest) \<Rightarrow> cons_token (TString s) (lex rest))
      else if c = CHR ''-'' \<or> is_digit c then
        (if valid_number (c # takeWhile is_num_char cs)
         then cons_token (TNumber (c # takeWhile is_num_char cs)) (lex (dropWhile is_num_char cs))
         else None)
      else if take 4 (c # cs) = ''true'' then cons_token TTrue (lex (drop 3 cs))
      else if take 5 (c # cs) = ''false'' then cons_token TFalse (lex (drop 4 cs))
      else if take 4 (c # cs) = ''null'' then cons_token TNull (lex (drop 3 cs))
      else None)"
  by pat_completeness auto
termination
proof (relation "measure length")
  fix c :: char and cs x2 s rest
  assume "lex_string [] cs = Some x2" and "(s, rest) = x2"
  then have "lex_string [] cs = Some (s, rest)" by simp
  then show "(rest, c # cs) \<in> measure length"
    by (simp add: lex_string_length)
qed (auto simp: le_imp_less_Suc length_dropWhile_le)

text \<open>
  The parser reads the tokens one by one. Its stack holds the arrays and objects that
  are open: an array with its elements so far (the last one first), an object with its
  properties so far and the key that waits for its value.
\<close>

datatype frame =
    FArray "json list"
  | FObject "(string \<times> json) list" "string option"

datatype pstate =
    PValue | PValueOrClose | PKeyOrClose | PKey | PColon | PArrayNext | PObjectNext
  | PDone json

fun obj_put :: "(string \<times> json) list \<Rightarrow> string \<Rightarrow> json \<Rightarrow> (string \<times> json) list" where
  "obj_put [] k v = [(k, v)]"
| "obj_put ((k', v') # ms) k v =
     (if k' = k then (k, v) # ms else (k', v') # obj_put ms k v)"

text \<open>A finished value goes where the innermost open container expects it.\<close>

fun place :: "json \<Rightarrow> frame list \<Rightarrow> (pstate \<times> frame list) option" where
  "place v [] = Some (PDone v, [])"
| "place v (FArray es # st) = Some (PArrayNext, FArray (v # es) # st)"
| "place v (FObject ms (Some k) # st) = Some (PObjectNext, FObject (obj_put ms k v) None # st)"
| "place v (FObject ms None # st) = None"

fun scalar :: "token \<Rightarrow> json option" where
  "scalar (TString s) = Some (JString s)"
| "scalar (TNumber n) = Some (JNumber n)"
| "scalar TTrue = Some (JBool True)"
| "scalar TFalse = Some (JBool False)"
| "scalar TNull = Some JNull"
| "scalar _ = None"

definition value_step :: "bool \<Rightarrow> frame list \<Rightarrow> token \<Rightarrow> (pstate \<times> frame list) option" where
  "value_step mayClose st t =
     (case scalar t of
        Some v \<Rightarrow> place v st
      | None \<Rightarrow>
          if t = TLBracket then Some (PValueOrClose, FArray [] # st)
          else if t = TLBrace then Some (PKeyOrClose, FObject [] None # st)
          else if t = TRBracket \<and> mayClose then
            (case st of FArray [] # st' \<Rightarrow> place (JArray []) st' | _ \<Rightarrow> None)
          else None)"

definition key_step :: "bool \<Rightarrow> frame list \<Rightarrow> token \<Rightarrow> (pstate \<times> frame list) option" where
  "key_step mayClose st t =
     (case (t, st) of
        (TString k, FObject ms None # st') \<Rightarrow> Some (PColon, FObject ms (Some k) # st')
      | (TRBrace, FObject ms None # st') \<Rightarrow>
          if mayClose then place (JObject ms) st' else None
      | _ \<Rightarrow> None)"

fun step :: "pstate \<Rightarrow> frame list \<Rightarrow> token \<Rightarrow> (pstate \<times> frame list) option" where
  "step PValue st t = value_step False st t"
| "step PValueOrClose st t = value_step True st t"
| "step PKeyOrClose st t = key_step True st t"
| "step PKey st t = key_step False st t"
| "step PColon st t = (if t = TColon then Some (PValue, st) else None)"
| "step PArrayNext st t =
     (if t = TComma then Some (PValue, st)
      else if t = TRBracket then
        (case st of FArray es # st' \<Rightarrow> place (JArray (rev es)) st' | _ \<Rightarrow> None)
      else None)"
| "step PObjectNext st t =
     (if t = TComma then Some (PKey, st)
      else if t = TRBrace then
        (case st of FObject ms None # st' \<Rightarrow> place (JObject ms) st' | _ \<Rightarrow> None)
      else None)"
| "step (PDone v) st t = None"

fun parse_tokens :: "pstate \<Rightarrow> frame list \<Rightarrow> token list \<Rightarrow> json option" where
  "parse_tokens (PDone v) st [] = Some v"
| "parse_tokens p st [] = None"
| "parse_tokens p st (t # ts) =
     (case step p st t of
        None \<Rightarrow> None
      | Some (p', st') \<Rightarrow> parse_tokens p' st' ts)"

text \<open>\<^verbatim>\<open>JSON.parse(text)\<close>: the value, or \<^term>\<open>None\<close> where it throws a SyntaxError.\<close>

definition JSON_parse :: "string \<Rightarrow> json option" where
  "JSON_parse text = (case lex text of None \<Rightarrow> None | Some ts \<Rightarrow> parse_tokens PValue [] ts)"

subsection \<open>Truthiness, property access and \<^verbatim>\<open>Object.keys\<close>\<close>

text \<open>
  A number is falsy when it is zero, that is when every digit before its exponent is
  \<^verbatim>\<open>0\<close> (an underflow to zero is not modelled: a number has no keys, zero or not).
\<close>

definition number_is_zero :: "string \<Rightarrow> bool" where
  "number_is_zero n =
     list_all (\<lambda>c. c = CHR ''0'')
       (filter is_digit (takeWhile (\<lambda>c. c \<noteq> CHR ''e'' \<and> c \<noteq> CHR ''E'') n))"

fun js_truthy :: "json \<Rightarrow> bool" where
  "js_truthy JNull = False"
| "js_truthy (JBool b) = b"
| "js_truthy (JNumber n) = (\<not> number_is_zero n)"
| "js_truthy (JString s) = (s \<noteq> [])"
| "js_truthy (JArray es) = True"
| "js_truthy (JObject ms) = True"

text \<open>
  \<^verbatim>\<open>decodedBindings?.d1_databases\<close>: \<^verbatim>\<open>undefined\<close> is \<^term>\<open>None\<close>. Only an object
  parsed from JSON can own the property; \<^verbatim>\<open>null\<close> short-circuits, and neither an array
  nor a primitive has it.
\<close>

fun get_d1_databases :: "json \<Rightarrow> json option" where
  "get_d1_databases (JObject ms) = map_of ms ''d1_databases''"
| "get_d1_databases _ = None"

text \<open>\<^verbatim>\<open>x || {}\<close>\<close>

definition or_empty_object :: "json option \<Rightarrow> json" where
  "or_empty_object x =
     (case x of
        None \<Rightarrow> JObject []
      | Some v \<Rightarrow> if js_truthy v then v else JObject [])"

fun show_nat :: "nat \<Rightarrow> string" where
  "show_nat n =
     (if n < 10 then [char_of (48 + n)]
      else show_nat (n div 10) @ [char_of (48 + n mod 10)])"

declare show_nat.simps [simp del]

definition nat_of_digits :: "string \<Rightarrow> nat" where
  "nat_of_digits s = foldl (\<lambda>a c. 10 * a + digit_val c) 0 s"

text \<open>An array index is the canonical decimal text of an integer below \<open>2\<^sup>3\<^sup>2 - 1\<close>.\<close>

definition is_array_index :: "string \<Rightarrow> bool" where
  "is_array_index k =
     (k \<noteq> [] \<and> list_all is_digit k \<and> (k = ''0'' \<or> hd k \<noteq> CHR ''0'')
      \<and> nat_of_digits k < 4294967295)"

text \<open>
  The length of a string in UTF-16 code units, from its UTF-8 bytes: a continuation byte
  counts for nothing, the first byte of a four-byte sequence for two.
\<close>

definition utf16_units :: "char \<Rightarrow> nat" where
  "utf16_units c =
     (let n = (of_char c :: nat)
      in if 0x80 \<le> n \<and> n < 0xC0 then 0 else if 0xF0 \<le> n then 2 else 1)"

definition utf16_length :: "string \<Rightarrow> nat" where
  "utf16_length s = sum_list (map utf16_units s)"

text \<open>
  \<^verbatim>\<open>Object.keys(v)\<close> for a value that is not nullish: the own enumerable string keys, the
  array indices first in ascending order, then the other keys in the order of creation.
\<close>

fun Object_keys :: "json \<Rightarrow> string list" where
  "Object_keys (JObject ms) =
     sort_key nat_of_digits (filter is_array_index (map fst ms))
     @ filter (\<lambda>k. \<not> is_array_index k) (map fst ms)"
| "Object_keys (JArray es) = map show_nat [0 ..< length es]"
| "Object_keys (JString s) = map show_nat [0 ..< utf16_length s]"
| "Object_keys (JNumber n) = []"
| "Object_keys (JBool b) = []"
| "Object_keys JNull = []"

section \<open>The command: pages/bundle.ts\<close>

subsection \<open>Options\<close>

text \<open>
  What the command line gives for each option, and the arguments that the handler receives
  once \<^verbatim>\<open>Options\<close> has filled in the defaults it declares.
\<close>

record PagesBuildFlags =
  flag_directory :: "string option"
  flag_functions_directory :: "string option"
  flag_outfile :: "string option"
  flag_output_config_path :: "string option"
  flag_output_routes_path :: "string option"
  flag_minify :: "bool option"
  flag_sourcemap :: "bool option"
  flag_fallback_service :: "string option"
  flag_watch :: "bool option"
  flag_plugin :: "bool option"
  flag_build_output_directory :: "string option"
  flag_node_compat :: "bool option"
  flag_bindings :: "string option"
  flag_experimental_worker_bundle :: "bool option"

record PagesBuildArgs =
  directory :: "string option"
  functionsDirectory :: string
  outfile :: string
  outputConfigPath :: "string option"
  outputRoutesPath :: "string option"
  minify :: bool
  sourcemap :: bool
  fallbackService :: string
  watch :: bool
  plugin :: bool
  buildOutputDirectory :: "string option"
  nodeCompat :: bool
  bindings :: "string option"
  experimentalWorkerBundle :: bool

definition default_to :: "'a \<Rightarrow> 'a option \<Rightarrow> 'a" where
  "default_to d x = (case x of None \<Rightarrow> d | Some v \<Rightarrow> v)"

definition Options :: "PagesBuildFlags \<Rightarrow> PagesBuildArgs" where
  "Options flags =
     \<lparr> directory = flag_directory flags,
       functionsDirectory = default_to ''functions'' (flag_functions_directory flags),
       outfile = default_to ''_worker.js'' (flag_outfile flags),
       outputConfigPath = flag_output_config_path flags,
       outputRoutesPath = flag_output_routes_path flags,
       minify = default_to False (flag_minify flags),
       sourcemap = default_to False (flag_sourcemap flags),
       fallbackService = default_to ''ASSETS'' (flag_fallback_service flags),
       watch = default_to False (flag_watch flags),
       plugin = default_to False (flag_plugin flags),
       buildOutputDirectory = flag_build_output_directory flags,
       nodeCompat = default_to False (flag_node_compat flags),
       bindings = flag_bindings flags,
       experimentalWorkerBundle = default_to False (flag_experimental_worker_bundle flags) \<rparr>"

subsection \<open>The builders and the environment\<close>

text \<open>
  The options that the handler passes to \<^verbatim>\<open>buildRawWorker\<close> and
  \<^verbatim>\<open>buildFunctions\<close>; the callback \<^verbatim>\<open>onEnd\<close>, which does nothing, is left out.
\<close>

record RawWorkerOptions =
  rw_workerScriptPath :: path
  rw_outfile :: path
  rw_directory :: path
  rw_local :: bool
  rw_sourcemap :: bool
  rw_watch :: bool
  rw_betaD1Shims :: "string list option"
  rw_experimentalWorkerBundle :: bool

record FunctionsOptions =
  fn_outfile :: path
  fn_outputConfigPath :: "string option"
  fn_functionsDirectory :: path
  fn_minify :: bool
  fn_sourcemap :: bool
  fn_fallbackService :: string
  fn_watch :: bool
  fn_plugin :: bool
  fn_buildOutputDirectory :: path
  fn_nodeCompat :: bool
  fn_routesOutputPath :: "string option"
  fn_local :: bool
  fn_d1Databases :: "string list option"
  fn_experimentalWorkerBundle :: bool

text \<open>
  What the handler takes from outside itself: the working directory, the temporary
  directory, the text of the number that \<^verbatim>\<open>Math.random()\<close> returns, the boundary of
  the multipart body, and what it imports from modules that are not among the sources: the
  constants of \<^verbatim>\<open>./constants\<close> and \<^verbatim>\<open>./utils\<close>, the two builders and the form
  builder. A builder returns a bundle or throws, and leaves the file system as it likes.
\<close>

record env =
  cwd :: path
  tmpdir :: path
  random :: string
  boundary :: string
  isInPagesCI :: bool
  pagesBetaWarning :: string
  buildRawWorker :: "RawWorkerOptions \<Rightarrow> filesystem \<Rightarrow> (exn + BundleResult) \<times> filesystem"
  buildFunctions :: "FunctionsOptions \<Rightarrow> filesystem \<Rightarrow> (exn + BundleResult) \<times> filesystem"
  createWorkerUploadForm :: "CfWorkerInit \<Rightarrow> FormData"

text \<open>
  Modelled from the spec: the constant \<^verbatim>\<open>EXIT_CODE_FUNCTIONS_NO_ROUTES_ERROR\<close> and the
  function \<^verbatim>\<open>getFunctionsNoRoutesWarning\<close> of \<^verbatim>\<open>./errors\<close>, which is not among the
  sources. The specification reserves for a function tree without routes a dedicated exit
  code, which is not zero and is not the generic code of the other fatal conditions, and
  asks for a message that tells what to do and names the functions directory. The model
  takes 156 for the code; every value other than 0 and 1 gives the same theorems.
\<close>

definition EXIT_CODE_FUNCTIONS_NO_ROUTES_ERROR :: int where
  "EXIT_CODE_FUNCTIONS_NO_ROUTES_ERROR = 156"

definition getFunctionsNoRoutesWarning :: "string \<Rightarrow> string" where
  "getFunctionsNoRoutesWarning dir =
     ''No routes found when building Functions directory: '' @ dir"

text \<open>
  Modelled from the spec: \<^verbatim>\<open>buildFunctions\<close> (\<^verbatim>\<open>./buildFunctions\<close> is not among
  the sources). The specification has the builder compile the function tree into a bundle,
  and surface its dedicated error when the tree yields zero routes; no output file is
  written or modified then. The scan of the tree for its routes and the compiler are
  parameters. The handler takes its builder from the environment: this one is the builder
  that the environment holds when it follows the specification.
\<close>

definition buildFunctions_spec ::
  "(path \<Rightarrow> filesystem \<Rightarrow> exn + string list)
     \<Rightarrow> (FunctionsOptions \<Rightarrow> string list \<Rightarrow> filesystem \<Rightarrow> (exn + BundleResult) \<times> filesystem)
     \<Rightarrow> FunctionsOptions \<Rightarrow> filesystem \<Rightarrow> (exn + BundleResult) \<times> filesystem" where
  "buildFunctions_spec scan compile opts fs =
     (case scan (fn_functionsDirectory opts) fs of
        Inl e \<Rightarrow> (Inl e, fs)
      | Inr routes \<Rightarrow>
          if routes = [] then
            (Inl (FunctionsNoRoutesError
                    (''Failed to find any routes while compiling Functions in: ''
                       @ fn_functionsDirectory opts)),
             fs)
          else compile opts routes fs)"

text \<open>What a run leaves behind: the file system, and what it logged, called and reported.\<close>

datatype event =
    Log string
  | Warn string
  | BuildRawWorkerCall RawWorkerOptions
  | BuildFunctionsCall FunctionsOptions
  | MetricsEvent string

record state =
  files :: filesystem
  events :: "event list"

definition emit :: "event \<Rightarrow> state \<Rightarrow> state" where
  "emit e st = st\<lparr> events := events st @ [e] \<rparr>"

text \<open>The calls of the builders among the events of a run.\<close>

fun is_builder_call :: "event \<Rightarrow> bool" where
  "is_builder_call (BuildRawWorkerCall _) = True"
| "is_builder_call (BuildFunctionsCall _) = True"
| "is_builder_call _ = False"

definition builder_calls :: "event list \<Rightarrow> event list" where
  "builder_calls es = filter is_builder_call es"

subsection \<open>The handler, step by step\<close>

definition nodeCompatWarning :: string where
  "nodeCompatWarning =
     ''Enabling node.js compatibility mode for builtins and globals. This is experimental and has serious tradeoffs. Please see https://github.com/ionic-team/rollup-plugin-node-polyfills/ for more details.''"

definition arrow :: string where
  "arrow = [CHR 0xE2, CHR 0x9E, CHR 0xA4]"

definition missingInputMessage :: "string \<Rightarrow> string" where
  "missingInputMessage dir =
     ''Could not find a static assets directory or the Functions directory.'' @ [CHR 0x0A] @
     ''No [--directory] of static files was provided so we looked for /'' @ dir @
     '' but couldn't find anything.'' @ [CHR 0x0A, CHR 0x09] @ arrow @
     '' If you are trying to build _worker.js, please make sure you provide the directory containing your static files [--directory].'' @
     [CHR 0x0A, CHR 0x09] @ arrow @
     '' If you are trying to build Pages Functions, please make sure [--functions-directory] points to the location of your Functions files.''"

text \<open>Lines 135 to 144: the test for missing inputs.\<close>

definition missingInput :: "path \<Rightarrow> PagesBuildArgs \<Rightarrow> filesystem \<Rightarrow> bool" where
  "missingInput wd args fs =
     (\<not> truthy_opt (directory args) \<and> functionsDirectory args = ''functions''
      \<and> \<not> existsSync wd fs (functionsDirectory args))"

text \<open>
  Lines 146 to 154: \<^verbatim>\<open>d1Databases\<close> stays \<^verbatim>\<open>undefined\<close> unless \<^verbatim>\<open>bindings\<close> is
  truthy. Inside the \<^verbatim>\<open>try\<close> only \<^verbatim>\<open>JSON.parse\<close> can throw.
\<close>

definition bindingsParseError :: exn where
  "bindingsParseError = FatalError ''Could not parse a valid set of 'bindings'.'' (Some 1)"

definition extract_d1Databases :: "string option \<Rightarrow> exn + string list option" where
  "extract_d1Databases b =
     (case b of
        None \<Rightarrow> Inr None
      | Some text \<Rightarrow>
          if truthy text then
            (case JSON_parse text of
               None \<Rightarrow> Inl bindingsParseError
             | Some decodedBindings \<Rightarrow>
                 Inr (Some (Object_keys (or_empty_object (get_d1_databases decodedBindings)))))
          else Inr None)"

text \<open>Line 156: \<^verbatim>\<open>directory && resolvePath(directory, "_worker.js")\<close>.\<close>

definition workerScriptPath :: "path \<Rightarrow> PagesBuildArgs \<Rightarrow> string option" where
  "workerScriptPath wd args =
     (case directory args of
        None \<Rightarrow> None
      | Some d \<Rightarrow> if truthy d then Some (resolvePath wd [d, ''_worker.js'']) else Some d)"

text \<open>Line 158: the value of \<^verbatim>\<open>outfile\<close> from there on.\<close>

definition effective_outfile :: "PagesBuildArgs \<Rightarrow> path" where
  "effective_outfile args =
     (if experimentalWorkerBundle args then ''_worker.bundle'' else outfile args)"

definition rawWorkerOptions ::
  "env \<Rightarrow> PagesBuildArgs \<Rightarrow> string list option \<Rightarrow> path \<Rightarrow> RawWorkerOptions" where
  "rawWorkerOptions E args d1Databases scriptPath =
     \<lparr> rw_workerScriptPath = scriptPath,
       rw_outfile = join [tmpdir E, ''./bundledWorker-'' @ random E @ ''.mjs''],
       rw_directory = default_to ''.'' (directory args),
       rw_local = False,
       rw_sourcemap = True,
       rw_watch = False,
       rw_betaD1Shims = d1Databases,
       rw_experimentalWorkerBundle = experimentalWorkerBundle args \<rparr>"

definition functionsOptions ::
  "env \<Rightarrow> PagesBuildArgs \<Rightarrow> string list option \<Rightarrow> FunctionsOptions" where
  "functionsOptions E args d1Databases =
     \<lparr> fn_outfile =
         (if experimentalWorkerBundle args
          then join [tmpdir E, ''./functionsWorker-'' @ random E @ ''.js'']
          else effective_outfile args),
       fn_outputConfigPath = outputConfigPath args,
       fn_functionsDirectory = functionsDirectory args,
       fn_minify = minify args,
       fn_sourcemap = sourcemap args,
       fn_fallbackService = fallbackService args,
       fn_watch = watch args,
       fn_plugin = plugin args,
       fn_buildOutputDirectory =
         default_to (dirname (effective_outfile args)) (buildOutputDirectory args),
       fn_nodeCompat = nodeCompat args,
       fn_routesOutputPath = outputRoutesPath args,
       fn_local = False,
       fn_d1Databases = d1Databases,
       fn_experimentalWorkerBundle = experimentalWorkerBundle args \<rparr>"

text \<open>Lines 165 to 187: the raw worker is built; what the builder throws is not caught.\<close>

definition buildRaw ::
  "env \<Rightarrow> PagesBuildArgs \<Rightarrow> string list option \<Rightarrow> path \<Rightarrow> state
     \<Rightarrow> (exn + BundleResult option) \<times> state" where
  "buildRaw E args d1Databases scriptPath st =
     (let opts = rawWorkerOptions E args d1Databases scriptPath;
          st1 = emit (BuildRawWorkerCall opts) st
      in case buildRawWorker E opts (files st1) of
           (Inl e, fs') \<Rightarrow> (Inl e, st1\<lparr> files := fs' \<rparr>)
         | (Inr b, fs') \<Rightarrow> (Inr (Some b), st1\<lparr> files := fs' \<rparr>))"

text \<open>
  Lines 188 to 227: the functions are built, if the functions directory is truthy; a
  \<^verbatim>\<open>FunctionsNoRoutesError\<close> is replaced, anything else is thrown again.
\<close>

definition translate :: "PagesBuildArgs \<Rightarrow> exn \<Rightarrow> exn" where
  "translate args e =
     (case e of
        FunctionsNoRoutesError _ \<Rightarrow>
          FatalError (getFunctionsNoRoutesWarning (functionsDirectory args))
            (Some EXIT_CODE_FUNCTIONS_NO_ROUTES_ERROR)
      | _ \<Rightarrow> e)"

definition buildFns ::
  "env \<Rightarrow> PagesBuildArgs \<Rightarrow> string list option \<Rightarrow> state
     \<Rightarrow> (exn + BundleResult option) \<times> state" where
  "buildFns E args d1Databases st =
     (if truthy (functionsDirectory args) then
        (let opts = functionsOptions E args d1Databases;
             st1 = emit (BuildFunctionsCall opts) st
         in case buildFunctions E opts (files st1) of
              (Inl e, fs') \<Rightarrow> (Inl (translate args e), st1\<lparr> files := fs' \<rparr>)
            | (Inr b, fs') \<Rightarrow> (Inr (Some b), st1\<lparr> files := fs' \<rparr>))
      else (Inr None, st))"

definition build ::
  "env \<Rightarrow> PagesBuildArgs \<Rightarrow> string list option \<Rightarrow> state
     \<Rightarrow> (exn + BundleResult option) \<times> state" where
  "build E args d1Databases st =
     (case workerScriptPath (cwd E) args of
        None \<Rightarrow> buildFns E args d1Databases st
      | Some scriptPath \<Rightarrow>
          if truthy scriptPath then buildRaw E args d1Databases scriptPath st
          else buildFns E args d1Databases st)"

text \<open>
  Lines 229 to 238: the bundle is packaged and written. \<^verbatim>\<open>bundle\<close> is
  \<^verbatim>\<open>undefined\<close> when no builder ran, and reading its entry path throws then.
\<close>

definition writeBundle ::
  "env \<Rightarrow> bool \<Rightarrow> path \<Rightarrow> BundleResult option \<Rightarrow> state \<Rightarrow> (exn + unit) \<times> state" where
  "writeBundle E requested out bundle st =
     (if requested then
        (case bundle of
           None \<Rightarrow>
             (Inl (TypeError ''Cannot read properties of undefined (reading 'resolvedEntryPointPath')''),
              st)
         | Some b \<Rightarrow>
             (case createUploadWorkerBundleContents (createWorkerUploadForm E) (boundary E)
                     (cwd E) (files st) b of
                Inl e \<Rightarrow> (Inl e, st)
              | Inr workerBundleContents \<Rightarrow>
                  (case writeFileSync (cwd E) (files st) out workerBundleContents of
                     Inl e \<Rightarrow> (Inl e, st)
                   | Inr fs' \<Rightarrow> (Inr (), st\<lparr> files := fs' \<rparr>))))
      else (Inr (), st))"

text \<open>Lines 121 to 130: the beta message and the warning.\<close>

definition announced :: "env \<Rightarrow> PagesBuildArgs \<Rightarrow> state \<Rightarrow> state" where
  "announced E args st =
     (let st1 = (if \<not> isInPagesCI E then emit (Log (pagesBetaWarning E)) st else st)
      in if nodeCompat args then emit (Warn nodeCompatWarning) st1 else st1)"

text \<open>
  The handler. Each step is awaited, and a step that throws ends the run; the metrics
  event is sent after everything else.
\<close>

definition Handler :: "env \<Rightarrow> PagesBuildArgs \<Rightarrow> state \<Rightarrow> (exn + unit) \<times> state" where
  "Handler E args st =
     (let st2 = announced E args st
      in if missingInput (cwd E) args (files st2) then
           (Inl (FatalError (missingInputMessage (functionsDirectory args)) None), st2)
         else
           (case extract_d1Databases (bindings args) of
              Inl e \<Rightarrow> (Inl e, st2)
            | Inr d1Databases \<Rightarrow>
                (case build E args d1Databases st2 of
                   (Inl e, st3) \<Rightarrow> (Inl e, st3)
                 | (Inr bundle, st3) \<Rightarrow>
                     (case writeBundle E (experimentalWorkerBundle args) (effective_outfile args)
                             bundle st3 of
                        (Inl e, st4) \<Rightarrow> (Inl e, st4)
                      | (Inr u, st4) \<Rightarrow>
                          (Inr (), emit (MetricsEvent ''build pages functions'') st4)))))"

section \<open>Examples\<close>

definition example_bundle :: BundleResult where
  "example_bundle =
     \<lparr> resolvedEntryPointPath = ''/tmp/x/bundledWorker-42.mjs'',
       modules = [\<lparr> name = ''greeting.txt'', content = StringContent ''hello'',
                    module_type = Some m_text \<rparr>],
       bundleType = Some bundle_esm \<rparr>"

definition example_fs :: filesystem where
  "example_fs =
     [''/'' \<mapsto> Directory,
      ''/tmp'' \<mapsto> Directory,
      ''/tmp/x'' \<mapsto> Directory,
      ''/tmp/x/bundledWorker-42.mjs'' \<mapsto> File ''export default {};'',
      ''/proj'' \<mapsto> Directory]"

text \<open>An entry file whose last byte is not UTF-8, and the same disk without the file.\<close>

definition fs_malformed :: filesystem where
  "fs_malformed = example_fs(''/tmp/x/bundledWorker-42.mjs'' \<mapsto> File [CHR ''a'', CHR 0xFF])"

definition fs_no_entry :: filesystem where
  "fs_no_entry = example_fs(''/tmp/x/bundledWorker-42.mjs'' := None)"

text \<open>
  Stand-ins for the builders in the examples. The builder of the raw worker copies the entry
  script to its output file, and fails where it cannot read the script. The builder of the
  functions is the one of the specification: its scan fails where the functions directory
  is not a directory and finds one route where the directory holds \<^verbatim>\<open>index.js\<close>; its
  compiler copies that file to the output file.
\<close>

definition example_buildRawWorker ::
  "path \<Rightarrow> RawWorkerOptions \<Rightarrow> filesystem \<Rightarrow> (exn + BundleResult) \<times> filesystem" where
  "example_buildRawWorker wd opts fs =
     (case readFileSync wd fs (rw_workerScriptPath opts) of
        Inl e \<Rightarrow> (Inl (Error ''Could not resolve the entry point''), fs)
      | Inr src \<Rightarrow>
          (case writeFileSync wd fs (rw_outfile opts) src of
             Inl e \<Rightarrow> (Inl e, fs)
           | Inr fs' \<Rightarrow>
               (Inr \<lparr> resolvedEntryPointPath = rw_outfile opts, modules = [],
                      bundleType = Some bundle_esm \<rparr>,
                fs')))"

definition example_scan :: "path \<Rightarrow> path \<Rightarrow> filesystem \<Rightarrow> exn + string list" where
  "example_scan wd dir fs =
     (case lookup_path wd fs dir of
        Found _ Directory \<Rightarrow>
          (case readFileSync wd fs (dir @ ''/index.js'') of
             Inl e \<Rightarrow> Inr []
           | Inr src \<Rightarrow> Inr [''/''])
      | _ \<Rightarrow> Inl (Error ''Could not read the functions directory''))"

definition example_compile ::
  "path \<Rightarrow> FunctionsOptions \<Rightarrow> string list \<Rightarrow> filesystem \<Rightarrow> (exn + BundleResult) \<times> filesystem" where
  "example_compile wd opts routes fs =
     (case readFileSync wd fs (fn_functionsDirectory opts @ ''/index.js'') of
        Inl e \<Rightarrow> (Inl e, fs)
      | Inr src \<Rightarrow>
          (case writeFileSync wd fs (fn_outfile opts) src of
             Inl e \<Rightarrow> (Inl e, fs)
           | Inr fs' \<Rightarrow>
               (Inr \<lparr> resolvedEntryPointPath = fn_outfile opts, modules = [],
                      bundleType = Some bundle_esm \<rparr>,
                fs')))"

definition example_env :: env where
  "example_env =
     \<lparr> cwd = ''/proj'',
       tmpdir = ''/tmp'',
       random = ''0.42'',
       boundary = ''----formdata-undici-011'',
       isInPagesCI = True,
       pagesBetaWarning = ''beta'',
       buildRawWorker = example_buildRawWorker ''/proj'',
       buildFunctions = buildFunctions_spec (example_scan ''/proj'') (example_compile ''/proj''),
       createWorkerUploadForm = createWorkerUploadForm_spec \<rparr>"

definition no_flags :: PagesBuildFlags where
  "no_flags =
     \<lparr> flag_directory = None, flag_functions_directory = None, flag_outfile = None,
       flag_output_config_path = None, flag_output_routes_path = None, flag_minify = None,
       flag_sourcemap = None, flag_fallback_service = None, flag_watch = None,
       flag_plugin = None, flag_build_output_directory = None, flag_node_compat = None,
       flag_bindings = None, flag_experimental_worker_bundle = None \<rparr>"

text \<open>
  A project with nothing in it; one with functions and a directory of static files that
  holds no \<^verbatim>\<open>_worker.js\<close>; one with functions and a \<^verbatim>\<open>_worker.js\<close>; one whose
  functions directory is empty; one where \<^verbatim>\<open>functions\<close> is a regular file; one that
  already holds a long \<^verbatim>\<open>_worker.bundle\<close>.
\<close>

definition fs_bare :: filesystem where
  "fs_bare = [''/'' \<mapsto> Directory, ''/tmp'' \<mapsto> Directory, ''/proj'' \<mapsto> Directory]"

definition fs_functions :: filesystem where
  "fs_functions =
     fs_bare(''/proj/functions'' \<mapsto> Directory,
             ''/proj/functions/index.js'' \<mapsto> File ''export function onRequest() {}'',
             ''/proj/public'' \<mapsto> Directory)"

definition fs_both :: filesystem where
  "fs_both = fs_functions(''/proj/public/_worker.js'' \<mapsto> File ''export default {};'')"

definition fs_no_routes :: filesystem where
  "fs_no_routes = fs_bare(''/proj/functions'' \<mapsto> Directory)"

definition fs_functions_file :: filesystem where
  "fs_functions_file = fs_bare(''/proj/functions'' \<mapsto> File ''not a directory'')"

definition old_bundle :: string where
  "old_bundle = replicate 4000 (CHR ''x'')"

definition fs_old_bundle :: filesystem where
  "fs_old_bundle = fs_both(''/proj/_worker.bundle'' \<mapsto> File old_bundle)"

definition state0 :: "filesystem \<Rightarrow> state" where
  "state0 fs = \<lparr> files = fs, events = [] \<rparr>"

text \<open>
  The arguments of the example runs: the defaults; a directory of static files; another
  functions directory; the bundle of a raw worker, and of functions, with an output file of
  one's own; a raw worker with such an output file and no bundle.
\<close>

definition args_default :: PagesBuildArgs where
  "args_default = Options no_flags"

definition args_public :: PagesBuildArgs where
  "args_public = Options (no_flags\<lparr> flag_directory := Some ''public'' \<rparr>)"

definition args_api :: PagesBuildArgs where
  "args_api = Options (no_flags\<lparr> flag_functions_directory := Some ''api'' \<rparr>)"

definition args_bundle :: PagesBuildArgs where
  "args_bundle =
     Options (no_flags\<lparr> flag_directory := Some ''public'',
                        flag_outfile := Some ''out.js'',
                        flag_experimental_worker_bundle := Some True \<rparr>)"

definition args_functions_bundle :: PagesBuildArgs where
  "args_functions_bundle =
     Options (no_flags\<lparr> flag_outfile := Some ''dist.js'',
                        flag_experimental_worker_bundle := Some True \<rparr>)"

definition args_raw_outfile :: PagesBuildArgs where
  "args_raw_outfile =
     Options (no_flags\<lparr> flag_directory := Some ''public'', flag_outfile := Some ''out.js'' \<rparr>)"

text \<open>What the builders leave in the two runs that ask for the bundle, and the payloads.\<close>

definition built_bundle :: BundleResult where
  "built_bundle =
     \<lparr> resolvedEntryPointPath = ''/tmp/bundledWorker-0.42.mjs'', modules = [],
       bundleType = Some bundle_esm \<rparr>"

definition fs_built :: filesystem where
  "fs_built = fs_old_bundle(''/tmp/bundledWorker-0.42.mjs'' \<mapsto> File ''export default {};'')"

definition built_state :: state where
  "built_state =
     \<lparr> files = fs_built,
       events = [BuildRawWorkerCall
                   (rawWorkerOptions example_env args_bundle None ''/proj/public/_worker.js'')] \<rparr>"

definition example_payload :: string where
  "example_payload =
     Response_blob ''----formdata-undici-011''
       (createWorkerUploadForm_spec
          (worker \<lparr> name = ''bundledWorker-0.42.mjs'',
                    content = StringContent ''export default {};'',
                    module_type = Some m_esm \<rparr> built_bundle))"

definition functions_bundle :: BundleResult where
  "functions_bundle =
     \<lparr> resolvedEntryPointPath = ''/tmp/functionsWorker-0.42.js'', modules = [],
       bundleType = Some bundle_esm \<rparr>"

definition fs_functions_built :: filesystem where
  "fs_functions_built =
     fs_functions(''/tmp/functionsWorker-0.42.js'' \<mapsto> File ''export function onRequest() {}'')"

definition functions_payload :: string where
  "functions_payload =
     Response_blob ''----formdata-undici-011''
       (createWorkerUploadForm_spec
          (worker \<lparr> name = ''functionsWorker-0.42.js'',
                    content = StringContent ''export function onRequest() {}'',
                    module_type = Some m_esm \<rparr> functions_bundle))"

section \<open>The packager: properties\<close>

lemma basename_last_segment:
  assumes "f \<noteq> []" and "CHR ''/'' \<notin> set f"
  shows "basename (d @ ''/'' @ f) = f"
proof -
  have nf: "rev f \<noteq> []" using assms by simp
  have hd: "hd (rev f) \<noteq> CHR ''/''"
    using assms by (metis hd_in_set nf set_rev)
  have d: "dropWhile (\<lambda>c. c = CHR ''/'') (rev f @ CHR ''/'' # rev d) = rev f @ CHR ''/'' # rev d"
    using nf hd by (cases "rev f") auto
  have t: "takeWhile (\<lambda>c. c \<noteq> CHR ''/'') (rev f @ CHR ''/'' # rev d) = rev f"
    using assms by (auto simp: takeWhile_tail)
  show ?thesis unfolding basename_def using d t by simp
qed

lemma walk_cong:
  assumes "\<forall>q \<in> set (consulted_from cur cs). fs1 q = fs2 q"
  shows "walk fs1 cur cs = walk fs2 cur cs"
  using assms
proof (induction cs arbitrary: cur)
  case Nil
  then show ?case by simp
next
  case (Cons c cs)
  then have here: "fs1 (abs_path cur) = fs2 (abs_path cur)"
    and rest: "\<forall>q \<in> set (consulted_from (next_dir cur c) cs). fs1 q = fs2 q"
    by simp_all
  from Cons.IH [OF rest] here show ?case
    by (simp split: option.splits node.splits)
qed

lemma lookup_path_cong:
  assumes "\<forall>q \<in> set (consulted wd p). fs1 q = fs2 q"
  shows "lookup_path wd fs1 p = lookup_path wd fs2 p"
proof (cases "p = []")
  case True
  then show ?thesis by (simp add: lookup_path_def)
next
  case False
  with assms have "\<forall>q \<in> set (consulted_from (start_dir wd p) (split_on (CHR ''/'') p)). fs1 q = fs2 q"
    by (simp add: consulted_def)
  from walk_cong [OF this] False show ?thesis by (simp add: lookup_path_def)
qed

text \<open>The main module that the packager builds from the text of the entry file.\<close>

lemma mainModule_of_file:
  assumes "lookup_path wd fs (resolvedEntryPointPath b) = Found c (File bytes)"
  shows "mainModule wd fs b =
           Inr \<lparr> name = basename (resolvedEntryPointPath b),
                 content = StringContent (utf8_decode bytes),
                 module_type = Some (case bundleType b of None \<Rightarrow> m_esm
                                     | Some t \<Rightarrow> module_type_of t) \<rparr>"
  using assms by (simp add: mainModule_def readFileSync_def)

lemma mainModule_Inr:
  assumes "mainModule wd fs b = Inr m"
  shows "\<exists>c bytes. lookup_path wd fs (resolvedEntryPointPath b) = Found c (File bytes) \<and>
           m = \<lparr> name = basename (resolvedEntryPointPath b),
                 content = StringContent (utf8_decode bytes),
                 module_type = Some (case bundleType b of None \<Rightarrow> m_esm
                                     | Some t \<Rightarrow> module_type_of t) \<rparr>"
  using assms
  by (auto simp: mainModule_def readFileSync_def split: sum.splits lookup.splits node.splits)

lemma mainModule_error:
  "lookup_path wd fs (resolvedEntryPointPath b) = NoEntry \<Longrightarrow>
     mainModule wd fs b = Inl (SystemError ''ENOENT'' (Some (resolvedEntryPointPath b)))"
  "lookup_path wd fs (resolvedEntryPointPath b) = NotDirectory \<Longrightarrow>
     mainModule wd fs b = Inl (SystemError ''ENOTDIR'' (Some (resolvedEntryPointPath b)))"
  "lookup_path wd fs (resolvedEntryPointPath b) = Found c Directory \<Longrightarrow>
     mainModule wd fs b = Inl (SystemError ''EISDIR'' None)"
  by (simp_all add: mainModule_def readFileSync_def)

lemma formData_of_mainModule:
  "createWorkerBundleFormData f wd fs b
     = (case mainModule wd fs b of Inl e \<Rightarrow> Inl e | Inr m \<Rightarrow> Inr (f (worker m b)))"
  by (simp add: createWorkerBundleFormData_def)

lemma contents_of_mainModule:
  "createUploadWorkerBundleContents f bd wd fs b
     = (case mainModule wd fs b of
          Inl e \<Rightarrow> Inl e
        | Inr m \<Rightarrow> Inr (Response_blob bd (f (worker m b))))"
  by (simp add: createUploadWorkerBundleContents_def createWorkerBundleFormData_def
      split: sum.splits)

lemmas fs_eval =
  lookup_path_def start_dir_def isAbsolute_def abs_path_def next_dir_def existsSync_def
  readFileSync_def writeFileSync_def open_for_write_def Let_def

lemma example_entry_file:
  "lookup_path ''/proj'' example_fs (resolvedEntryPointPath example_bundle)
     = Found [''bundledWorker-42.mjs'', ''x'', ''tmp''] (File ''export default {};'')"
  by (simp add: example_bundle_def example_fs_def fs_eval)

lemma example_mainModule:
  "mainModule ''/proj'' example_fs example_bundle =
     Inr \<lparr> name = ''bundledWorker-42.mjs'',
           content = StringContent ''export default {};'',
           module_type = Some m_esm \<rparr>"
proof -
  have "mainModule ''/proj'' example_fs example_bundle =
          Inr \<lparr> name = basename (resolvedEntryPointPath example_bundle),
                content = StringContent (utf8_decode ''export default {};''),
                module_type = Some (case bundleType example_bundle of None \<Rightarrow> m_esm
                                    | Some t \<Rightarrow> module_type_of t) \<rparr>"
    by (rule mainModule_of_file) (rule example_entry_file)
  then show ?thesis
    by (simp add: example_bundle_def basename_def utf8_decode_def utf8_start_def)
qed

text \<open>
  C8. Whenever the packager produces its form data, they are the form of a descriptor whose
  main module is named by the base name of \<^verbatim>\<open>resolvedEntryPointPath\<close>, and so is the
  descriptor itself. With the form builder of the specification the parts are named
  \<^verbatim>\<open>metadata\<close>, then that base name, then the names of the modules of the bundle, the
  file of the main part carries that base name, and the metadata name it as the main
  module. The base name of \<^verbatim>\<open>/tmp/x/bundledWorker-42.mjs\<close> is
  \<^verbatim>\<open>bundledWorker-42.mjs\<close>, and in general the base name of a path that ends in a slash
  and a segment is that segment.
\<close>

theorem main_module_name_is_basename:
  assumes "createWorkerBundleFormData f wd fs b = Inr form"
  shows "(\<exists>m. form = f (worker m b)
              \<and> main (worker m b) = m
              \<and> name m = basename (resolvedEntryPointPath b)
              \<and> worker_name (worker m b) = basename (resolvedEntryPointPath b))
         \<and> (\<exists>sform ftype bytes.
               createWorkerBundleFormData createWorkerUploadForm_spec wd fs b = Inr sform
               \<and> map entry_name sform
                   = ''metadata'' # basename (resolvedEntryPointPath b) # map name (modules b)
               \<and> entry_value (sform ! 0)
                   = StringValue (''{'' @ json_quote ''main_module'' @ '':''
                                    @ json_quote (basename (resolvedEntryPointPath b)) @ ''}'')
               \<and> entry_value (sform ! 1)
                   = FileValue (basename (resolvedEntryPointPath b)) ftype bytes)
         \<and> basename ''/tmp/x/bundledWorker-42.mjs'' = ''bundledWorker-42.mjs''
         \<and> (\<forall>d g. g \<noteq> [] \<and> CHR ''/'' \<notin> set g \<longrightarrow> basename (d @ ''/'' @ g) = g)"
proof -
  from assms obtain m where m: "mainModule wd fs b = Inr m" and form: "form = f (worker m b)"
    by (auto simp: formData_of_mainModule split: sum.splits)
  from mainModule_Inr [OF m] have n: "name m = basename (resolvedEntryPointPath b)"
    by auto
  have w: "main (worker m b) = m" "worker_name (worker m b) = name m"
    "worker_modules (worker m b) = modules b"
    by (simp_all add: worker_def)
  have first: "\<exists>m. form = f (worker m b)
              \<and> main (worker m b) = m
              \<and> name m = basename (resolvedEntryPointPath b)
              \<and> worker_name (worker m b) = basename (resolvedEntryPointPath b)"
    using form n w by auto
  let ?sform = "createWorkerUploadForm_spec (worker m b)"
  have s: "createWorkerBundleFormData createWorkerUploadForm_spec wd fs b = Inr ?sform"
    using m by (simp add: formData_of_mainModule)
  have names: "map entry_name ?sform
                 = ''metadata'' # basename (resolvedEntryPointPath b) # map name (modules b)"
    using n w by (simp add: createWorkerUploadForm_spec_def metadata_entry_def module_entry_def
        comp_def)
  have meta: "entry_value (?sform ! 0)
                = StringValue (''{'' @ json_quote ''main_module'' @ '':''
                                 @ json_quote (basename (resolvedEntryPointPath b)) @ ''}'')"
    using n w by (simp add: createWorkerUploadForm_spec_def metadata_entry_def)
  have fval: "entry_value (?sform ! 1)
                = FileValue (basename (resolvedEntryPointPath b)) (toMimeType (module_type m))
                    (content_bytes (content m))"
    using n w by (simp add: createWorkerUploadForm_spec_def module_entry_def)
  have second: "\<exists>sform ftype bytes.
               createWorkerBundleFormData createWorkerUploadForm_spec wd fs b = Inr sform
               \<and> map entry_name sform
                   = ''metadata'' # basename (resolvedEntryPointPath b) # map name (modules b)
               \<and> entry_value (sform ! 0)
                   = StringValue (''{'' @ json_quote ''main_module'' @ '':''
                                    @ json_quote (basename (resolvedEntryPointPath b)) @ ''}'')
               \<and> entry_value (sform ! 1)
                   = FileValue (basename (resolvedEntryPointPath b)) ftype bytes"
    by (rule exI [of _ ?sform], rule exI [of _ "toMimeType (module_type m)"],
        rule exI [of _ "content_bytes (content m)"])
       (simp only: s names meta fval simp_thms)
  have e: "basename ''/tmp/x/bundledWorker-42.mjs'' = ''bundledWorker-42.mjs''"
    by (simp add: basename_def)
  show ?thesis using first second e basename_last_segment by blast
qed

lemma example_formData:
  "createWorkerBundleFormData createWorkerUploadForm_spec ''/proj'' example_fs example_bundle
     = Inr [\<lparr> entry_name = ''metadata'',
              entry_value = StringValue ''{\"main_module\":\"bundledWorker-42.mjs\"}'' \<rparr>,
            \<lparr> entry_name = ''bundledWorker-42.mjs'',
              entry_value = FileValue ''bundledWorker-42.mjs'' ''application/javascript+module''
                              ''export default {};'' \<rparr>,
            \<lparr> entry_name = ''greeting.txt'',
              entry_value = FileValue ''greeting.txt'' ''text/plain'' ''hello'' \<rparr>]"
proof -
  have "createWorkerBundleFormData createWorkerUploadForm_spec ''/proj'' example_fs example_bundle
          = Inr (createWorkerUploadForm_spec
                   (worker \<lparr> name = ''bundledWorker-42.mjs'',
                             content = StringContent ''export default {};'',
                             module_type = Some m_esm \<rparr> example_bundle))"
    by (simp add: formData_of_mainModule example_mainModule)
  then show ?thesis
    by (simp add: createWorkerUploadForm_spec_def metadata_entry_def module_entry_def
        worker_def example_bundle_def json_quote_def)
qed

theorem main_module_name_is_basename_witness:
  "createWorkerBundleFormData createWorkerUploadForm_spec ''/proj'' example_fs example_bundle
     = Inr [\<lparr> entry_name = ''metadata'',
              entry_value = StringValue ''{\"main_module\":\"bundledWorker-42.mjs\"}'' \<rparr>,
            \<lparr> entry_name = ''bundledWorker-42.mjs'',
              entry_value = FileValue ''bundledWorker-42.mjs'' ''application/javascript+module''
                              ''export default {};'' \<rparr>,
            \<lparr> entry_name = ''greeting.txt'',
              entry_value = FileValue ''greeting.txt'' ''text/plain'' ''hello'' \<rparr>]
   \<and> resolvedEntryPointPath example_bundle = ''/tmp/x/bundledWorker-42.mjs''
   \<and> basename (resolvedEntryPointPath example_bundle) = ''bundledWorker-42.mjs''"
proof -
  have a: "resolvedEntryPointPath example_bundle = ''/tmp/x/bundledWorker-42.mjs''"
    by (simp add: example_bundle_def)
  from main_module_name_is_basename [OF example_formData]
  have "basename ''/tmp/x/bundledWorker-42.mjs'' = ''bundledWorker-42.mjs''"
    by blast
  then show ?thesis using example_formData a by simp
qed

text \<open>
  C3. When the packager runs and the entry path leads to a regular file, the form data are
  those of a descriptor whose main module holds what that file holds on disk at that
  moment, read as text: a string, the UTF-8 decoding of the bytes, never a buffer. The type
  of the main module is \<^verbatim>\<open>esm\<close> or \<^verbatim>\<open>commonjs\<close>, both of them scripts. Nothing of
  the build result in memory reaches that content: whatever modules the bundle carries, the
  main module is the same, and with the form builder of the specification the file of the
  main part carries the decoded text. When the path leads to no file the packager throws
  the error of the read, and falls back on nothing.
\<close>

theorem main_module_content_from_disk:
  assumes "lookup_path wd fs (resolvedEntryPointPath b) = Found c (File bytes)"
  shows "(\<exists>m. createWorkerBundleFormData f wd fs b = Inr (f (worker m b))
              \<and> createUploadWorkerBundleContents f bd wd fs b
                  = Inr (Response_blob bd (f (worker m b)))
              \<and> main (worker m b) = m
              \<and> content m = StringContent (utf8_decode bytes)
              \<and> (module_type m = Some m_esm \<or> module_type m = Some m_commonjs)
              \<and> (\<forall>ms. createWorkerBundleFormData f wd fs (b\<lparr> modules := ms \<rparr>)
                         = Inr (f (worker m (b\<lparr> modules := ms \<rparr>)))
                       \<and> main (worker m (b\<lparr> modules := ms \<rparr>)) = m))
         \<and> (\<exists>sform fname ftype.
               createWorkerBundleFormData createWorkerUploadForm_spec wd fs b = Inr sform
               \<and> entry_value (sform ! 1) = FileValue fname ftype (utf8_decode bytes))
         \<and> (\<forall>fs'. lookup_path wd fs' (resolvedEntryPointPath b) = NoEntry \<longrightarrow>
               createWorkerBundleFormData f wd fs' b
                 = Inl (SystemError ''ENOENT'' (Some (resolvedEntryPointPath b))))
         \<and> (\<forall>fs'. lookup_path wd fs' (resolvedEntryPointPath b) = NotDirectory \<longrightarrow>
               createWorkerBundleFormData f wd fs' b
                 = Inl (SystemError ''ENOTDIR'' (Some (resolvedEntryPointPath b))))
         \<and> (\<forall>fs' d. lookup_path wd fs' (resolvedEntryPointPath b) = Found d Directory \<longrightarrow>
               createWorkerBundleFormData f wd fs' b = Inl (SystemError ''EISDIR'' None))"
proof -
  let ?m = "\<lparr> name = basename (resolvedEntryPointPath b),
             content = StringContent (utf8_decode bytes),
             module_type = Some (case bundleType b of None \<Rightarrow> m_esm
                                 | Some t \<Rightarrow> module_type_of t) \<rparr>"
  have m: "mainModule wd fs b = Inr ?m"
    using assms by (rule mainModule_of_file)
  have ty: "module_type ?m = Some m_esm \<or> module_type ?m = Some m_commonjs"
  proof (cases "bundleType b")
    case None
    then show ?thesis by simp
  next
    case (Some t)
    then show ?thesis by (cases t) simp_all
  qed
  have w: "main (worker ?m b') = ?m" for b'
    by (simp add: worker_def)
  have ms: "mainModule wd fs (b\<lparr> modules := ms \<rparr>) = Inr ?m" for ms
  proof -
    have "lookup_path wd fs (resolvedEntryPointPath (b\<lparr> modules := ms \<rparr>)) = Found c (File bytes)"
      using assms by simp
    from mainModule_of_file [OF this] show ?thesis by simp
  qed
  have first: "\<exists>m. createWorkerBundleFormData f wd fs b = Inr (f (worker m b))
              \<and> createUploadWorkerBundleContents f bd wd fs b
                  = Inr (Response_blob bd (f (worker m b)))
              \<and> main (worker m b) = m
              \<and> content m = StringContent (utf8_decode bytes)
              \<and> (module_type m = Some m_esm \<or> module_type m = Some m_commonjs)
              \<and> (\<forall>ms. createWorkerBundleFormData f wd fs (b\<lparr> modules := ms \<rparr>)
                         = Inr (f (worker m (b\<lparr> modules := ms \<rparr>)))
                       \<and> main (worker m (b\<lparr> modules := ms \<rparr>)) = m)"
  proof -
    have c1: "createWorkerBundleFormData f wd fs b = Inr (f (worker ?m b))"
      using m by (simp add: formData_of_mainModule)
    have c2: "createUploadWorkerBundleContents f bd wd fs b
                = Inr (Response_blob bd (f (worker ?m b)))"
      using m by (simp add: contents_of_mainModule)
    have c3: "content ?m = StringContent (utf8_decode bytes)"
      by simp
    have c4: "createWorkerBundleFormData f wd fs (b\<lparr> modules := ms \<rparr>)
                = Inr (f (worker ?m (b\<lparr> modules := ms \<rparr>)))" for ms
      using ms [of ms] by (simp add: formData_of_mainModule)
    show ?thesis
      by (rule exI [of _ ?m]) (simp only: c1 c2 c3 c4 w ty simp_thms)
  qed
  have sp: "createWorkerBundleFormData createWorkerUploadForm_spec wd fs b
              = Inr (createWorkerUploadForm_spec (worker ?m b))"
    using m by (simp add: formData_of_mainModule)
  have fv: "entry_value (createWorkerUploadForm_spec (worker ?m b) ! 1)
              = FileValue (basename (resolvedEntryPointPath b))
                  (toMimeType (module_type ?m)) (utf8_decode bytes)"
    by (simp add: createWorkerUploadForm_spec_def module_entry_def worker_def)
  have second: "\<exists>sform fname ftype.
               createWorkerBundleFormData createWorkerUploadForm_spec wd fs b = Inr sform
               \<and> entry_value (sform ! 1) = FileValue fname ftype (utf8_decode bytes)"
    by (rule exI [of _ "createWorkerUploadForm_spec (worker ?m b)"],
        rule exI [of _ "basename (resolvedEntryPointPath b)"],
        rule exI [of _ "toMimeType (module_type ?m)"])
       (simp only: sp fv simp_thms)
  have third: "\<forall>fs'. lookup_path wd fs' (resolvedEntryPointPath b) = NoEntry \<longrightarrow>
               createWorkerBundleFormData f wd fs' b
                 = Inl (SystemError ''ENOENT'' (Some (resolvedEntryPointPath b)))"
    by (simp add: formData_of_mainModule mainModule_error)
  have fourth: "\<forall>fs'. lookup_path wd fs' (resolvedEntryPointPath b) = NotDirectory \<longrightarrow>
               createWorkerBundleFormData f wd fs' b
                 = Inl (SystemError ''ENOTDIR'' (Some (resolvedEntryPointPath b)))"
    by (simp add: formData_of_mainModule mainModule_error)
  have fifth: "\<forall>fs' d. lookup_path wd fs' (resolvedEntryPointPath b) = Found d Directory \<longrightarrow>
               createWorkerBundleFormData f wd fs' b = Inl (SystemError ''EISDIR'' None)"
    by (simp add: formData_of_mainModule mainModule_error)
  from first second third fourth fifth show ?thesis by (intro conjI)
qed

lemma example_malformed_file:
  "lookup_path ''/proj'' fs_malformed (resolvedEntryPointPath example_bundle)
     = Found [''bundledWorker-42.mjs'', ''x'', ''tmp''] (File [CHR ''a'', CHR 0xFF])"
  by (simp add: example_bundle_def fs_malformed_def example_fs_def fs_eval)

lemma example_no_entry:
  "lookup_path ''/proj'' fs_no_entry (resolvedEntryPointPath example_bundle) = NoEntry"
  by (simp add: example_bundle_def fs_no_entry_def example_fs_def fs_eval)

theorem main_module_content_from_disk_witness:
  "lookup_path ''/proj'' fs_malformed (resolvedEntryPointPath example_bundle)
     = Found [''bundledWorker-42.mjs'', ''x'', ''tmp''] (File [CHR ''a'', CHR 0xFF])
   \<and> utf8_decode [CHR ''a'', CHR 0xFF] = [CHR ''a'', CHR 0xEF, CHR 0xBF, CHR 0xBD]
   \<and> map_sum id (\<lambda>form. entry_value (form ! 1))
         (createWorkerBundleFormData createWorkerUploadForm_spec ''/proj'' fs_malformed
            example_bundle)
       = Inr (FileValue ''bundledWorker-42.mjs'' ''application/javascript+module''
                [CHR ''a'', CHR 0xEF, CHR 0xBF, CHR 0xBD])
   \<and> lookup_path ''/proj'' fs_no_entry (resolvedEntryPointPath example_bundle) = NoEntry
   \<and> createWorkerBundleFormData createWorkerUploadForm_spec ''/proj'' fs_no_entry example_bundle
       = Inl (SystemError ''ENOENT'' (Some ''/tmp/x/bundledWorker-42.mjs''))"
proof -
  note t = main_module_content_from_disk
    [where fs = fs_malformed and wd = "''/proj''" and b = example_bundle
       and f = createWorkerUploadForm_spec, OF example_malformed_file]
  have d: "utf8_decode [CHR ''a'', CHR 0xFF] = [CHR ''a'', CHR 0xEF, CHR 0xBF, CHR 0xBD]"
    by (simp add: utf8_decode_def utf8_start_def replacement_def)
  from t obtain m where
    f: "createWorkerBundleFormData createWorkerUploadForm_spec ''/proj'' fs_malformed example_bundle
          = Inr (createWorkerUploadForm_spec (worker m example_bundle))"
    and mm: "main (worker m example_bundle) = m"
    and c: "content m = StringContent (utf8_decode [CHR ''a'', CHR 0xFF])"
    by blast
  from t obtain sform fname ftype where
    "createWorkerBundleFormData createWorkerUploadForm_spec ''/proj'' fs_malformed example_bundle
       = Inr sform"
    and "entry_value (sform ! 1) = FileValue fname ftype (utf8_decode [CHR ''a'', CHR 0xFF])"
    by blast
  with f have v: "entry_value (createWorkerUploadForm_spec (worker m example_bundle) ! 1)
                    = FileValue fname ftype (utf8_decode [CHR ''a'', CHR 0xFF])"
    by simp
  have full: "mainModule ''/proj'' fs_malformed example_bundle
                = Inr \<lparr> name = ''bundledWorker-42.mjs'',
                        content = StringContent (utf8_decode [CHR ''a'', CHR 0xFF]),
                        module_type = Some m_esm \<rparr>"
    using mainModule_of_file [OF example_malformed_file]
    by (simp add: example_bundle_def basename_def)
  have a: "map_sum id (\<lambda>form. entry_value (form ! 1))
             (createWorkerBundleFormData createWorkerUploadForm_spec ''/proj'' fs_malformed
                example_bundle)
           = Inr (FileValue ''bundledWorker-42.mjs'' ''application/javascript+module''
                    (utf8_decode [CHR ''a'', CHR 0xFF]))"
    by (simp add: formData_of_mainModule full createWorkerUploadForm_spec_def module_entry_def
        worker_def)
  from t have "createWorkerBundleFormData createWorkerUploadForm_spec ''/proj'' fs_no_entry
                 example_bundle
               = Inl (SystemError ''ENOENT'' (Some (resolvedEntryPointPath example_bundle)))"
    using example_no_entry by blast
  then have e: "createWorkerBundleFormData createWorkerUploadForm_spec ''/proj'' fs_no_entry
                  example_bundle
                = Inl (SystemError ''ENOENT'' (Some ''/tmp/x/bundledWorker-42.mjs''))"
    by (simp add: example_bundle_def)
  show ?thesis using example_malformed_file d a example_no_entry e by simp
qed

lemma length_encoded_entries:
  "length (concat (map (encode_entry bd) form))
     = length form * length bd + sum_list (map (\<lambda>e. 4 + length (entry_part e)) form)"
  by (induction form) (simp_all add: encode_entry_def CRLF_def)

lemma length_Response_blob:
  "length (Response_blob bd form)
     = Suc (length form) * length bd
       + (sum_list (map (\<lambda>e. 4 + length (entry_part e)) form) + 4)"
  by (simp add: Response_blob_def length_encoded_entries)

lemma Response_blob_boundary:
  assumes "Response_blob bd1 form = Response_blob bd2 form"
  shows "bd1 = bd2"
proof -
  have "length (Response_blob bd1 form) = length (Response_blob bd2 form)"
    using assms by simp
  then have "Suc (length form) * length bd1 = Suc (length form) * length bd2"
    unfolding length_Response_blob by linarith
  then have len: "length bd1 = length bd2"
    by (simp only: mult_cancel1) simp
  have "\<exists>r1 r2. Response_blob bd1 form = ''--'' @ bd1 @ r1
                 \<and> Response_blob bd2 form = ''--'' @ bd2 @ r2"
    by (cases form) (simp_all add: Response_blob_def encode_entry_def)
  then obtain r1 r2 where r: "Response_blob bd1 form = ''--'' @ bd1 @ r1"
      "Response_blob bd2 form = ''--'' @ bd2 @ r2"
    by blast
  from r assms have "''--'' @ bd1 @ r1 = ''--'' @ bd2 @ r2" by simp
  then have "bd1 @ r1 = bd2 @ r2" by simp
  with len show ?thesis by simp
qed

text \<open>
  C2, as the code has it. The packager consults the file system along the entry path only,
  and builds the form data from the text it reads there and from the bundle: two file
  systems that agree along that path give the same form data, part by part, and for one and
  the same boundary the same bytes. The bytes of the payload contain the boundary, which is
  drawn for each payload and is not a function of the bundle or of the disk: two payloads
  of the same bundle differ whenever their boundaries do.
\<close>

theorem packaging_reads_entry_file_only:
  assumes "\<forall>q \<in> set (consulted wd (resolvedEntryPointPath b)). fs1 q = fs2 q"
  shows "createWorkerBundleFormData f wd fs1 b = createWorkerBundleFormData f wd fs2 b
         \<and> createUploadWorkerBundleContents f bd wd fs1 b
             = createUploadWorkerBundleContents f bd wd fs2 b
         \<and> (\<forall>bd' x y. bd \<noteq> bd'
               \<and> createUploadWorkerBundleContents f bd wd fs1 b = Inr x
               \<and> createUploadWorkerBundleContents f bd' wd fs2 b = Inr y \<longrightarrow> x \<noteq> y)"
proof -
  have "lookup_path wd fs1 (resolvedEntryPointPath b) = lookup_path wd fs2 (resolvedEntryPointPath b)"
    using assms by (rule lookup_path_cong)
  then have r: "readFileSync wd fs1 (resolvedEntryPointPath b)
                  = readFileSync wd fs2 (resolvedEntryPointPath b)"
    by (simp add: readFileSync_def)
  have m: "mainModule wd fs1 b = mainModule wd fs2 b"
    by (simp add: mainModule_def r)
  have form: "createWorkerBundleFormData f wd fs1 b = createWorkerBundleFormData f wd fs2 b"
    by (simp add: createWorkerBundleFormData_def m)
  then have same: "createUploadWorkerBundleContents f bd wd fs1 b
                     = createUploadWorkerBundleContents f bd wd fs2 b" for bd
    by (simp add: createUploadWorkerBundleContents_def)
  have differ: "x \<noteq> y"
    if "bd \<noteq> bd'"
      and "createUploadWorkerBundleContents f bd wd fs1 b = Inr x"
      and "createUploadWorkerBundleContents f bd' wd fs2 b = Inr y"
    for bd' x y
  proof
    assume "x = y"
    from that(2) obtain fd where fd: "createWorkerBundleFormData f wd fs1 b = Inr fd"
      and x: "x = Response_blob bd fd"
      by (auto simp: createUploadWorkerBundleContents_def split: sum.splits)
    from that(3) form fd have y: "y = Response_blob bd' fd"
      by (auto simp: createUploadWorkerBundleContents_def split: sum.splits)
    from \<open>x = y\<close> x y have "bd = bd'" by (auto dest: Response_blob_boundary)
    with that(1) show False by simp
  qed
  show ?thesis using form same differ by blast
qed

lemma example_agree:
  "\<forall>q \<in> set (consulted ''/proj'' (resolvedEntryPointPath example_bundle)).
     example_fs q = (example_fs(''/proj/notes.txt'' \<mapsto> File ''x'')) q"
  by (simp add: consulted_def example_bundle_def start_dir_def isAbsolute_def abs_path_def
      next_dir_def)

theorem packaging_reads_entry_file_only_witness:
  "consulted ''/proj'' (resolvedEntryPointPath example_bundle)
     = [''/'', ''/'', ''/tmp'', ''/tmp/x'', ''/tmp/x/bundledWorker-42.mjs'']
   \<and> createUploadWorkerBundleContents createWorkerUploadForm_spec ''B'' ''/proj'' example_fs
         example_bundle
       = createUploadWorkerBundleContents createWorkerUploadForm_spec ''B'' ''/proj''
           (example_fs(''/proj/notes.txt'' \<mapsto> File ''x'')) example_bundle"
proof -
  have c: "consulted ''/proj'' (resolvedEntryPointPath example_bundle)
             = [''/'', ''/'', ''/tmp'', ''/tmp/x'', ''/tmp/x/bundledWorker-42.mjs'']"
    by (simp add: consulted_def example_bundle_def start_dir_def isAbsolute_def abs_path_def
        next_dir_def)
  from packaging_reads_entry_file_only
    [where ?fs1.0 = example_fs and ?fs2.0 = "example_fs(''/proj/notes.txt'' \<mapsto> File ''x'')"
       and wd = "''/proj''" and b = example_bundle, OF example_agree] c
  show ?thesis by blast
qed

text \<open>
  C2, as it is stated, fails: the same bundle, packaged twice over the same disk, gives two
  payloads that differ as soon as the two boundaries do.
\<close>

theorem packaging_not_byte_identical:
  "createUploadWorkerBundleContents createWorkerUploadForm_spec ''----formdata-undici-011''
       ''/proj'' example_fs example_bundle
     \<noteq> createUploadWorkerBundleContents createWorkerUploadForm_spec ''----formdata-undici-022''
       ''/proj'' example_fs example_bundle"
proof -
  have "createUploadWorkerBundleContents f bd ''/proj'' example_fs example_bundle
          = Inr (Response_blob bd (f (worker \<lparr> name = ''bundledWorker-42.mjs'',
                   content = StringContent ''export default {};'',
                   module_type = Some m_esm \<rparr> example_bundle)))" for f bd
    by (simp add: contents_of_mainModule example_mainModule)
  then show ?thesis
    by (simp add: Response_blob_def createWorkerUploadForm_spec_def encode_entry_def
        entry_part_def metadata_entry_def)
qed

section \<open>The handler: properties\<close>

lemma files_emit [simp]: "files (emit e st) = files st"
  by (simp add: emit_def)

lemma events_emit [simp]: "events (emit e st) = events st @ [e]"
  by (simp add: emit_def)

lemma builder_calls_append [simp]:
  "builder_calls (xs @ ys) = builder_calls xs @ builder_calls ys"
  by (simp add: builder_calls_def)

lemma builder_calls_Nil [simp]: "builder_calls [] = []"
  by (simp add: builder_calls_def)

lemma builder_calls_Cons [simp]:
  "builder_calls (e # es) = (if is_builder_call e then e # builder_calls es else builder_calls es)"
  by (simp add: builder_calls_def)

lemma resolvePath_nonempty: "resolvePath wd ps \<noteq> []"
  by (simp add: resolvePath_def Let_def split: prod.splits)

lemma files_announced [simp]: "files (announced E args st) = files st"
  by (simp add: announced_def)

lemma calls_announced [simp]:
  "builder_calls (events (announced E args st)) = builder_calls (events st)"
  by (simp add: announced_def)

lemma Handler_missing:
  assumes "missingInput (cwd E) args (files st)"
  shows "Handler E args st =
           (Inl (FatalError (missingInputMessage (functionsDirectory args)) None),
            announced E args st)"
  using assms by (simp add: Handler_def announced_def Let_def)

lemma Handler_bindings_error:
  assumes "\<not> missingInput (cwd E) args (files st)"
    and "extract_d1Databases (bindings args) = Inl e"
  shows "Handler E args st = (Inl e, announced E args st)"
  using assms by (simp add: Handler_def announced_def Let_def)

lemma Handler_build_error:
  assumes "\<not> missingInput (cwd E) args (files st)"
    and "extract_d1Databases (bindings args) = Inr d1"
    and "build E args d1 (announced E args st) = (Inl e, st3)"
  shows "Handler E args st = (Inl e, st3)"
  using assms by (simp add: Handler_def announced_def Let_def)

lemma Handler_built:
  assumes "\<not> missingInput (cwd E) args (files st)"
    and "extract_d1Databases (bindings args) = Inr d1"
    and "build E args d1 (announced E args st) = (Inr bundle, st3)"
  shows "Handler E args st =
           (case writeBundle E (experimentalWorkerBundle args) (effective_outfile args) bundle st3 of
              (Inl e, st4) \<Rightarrow> (Inl e, st4)
            | (Inr u, st4) \<Rightarrow> (Inr (), emit (MetricsEvent ''build pages functions'') st4))"
  using assms by (simp add: Handler_def announced_def Let_def)

lemma events_writeBundle [simp]:
  "events (snd (writeBundle E requested out bundle st)) = events st"
  by (simp add: writeBundle_def split: option.splits sum.splits)

lemmas handler_eval =
  Handler_def announced_def example_env_def Options_def no_flags_def default_to_def
  state0_def missingInput_def truthy_opt_def truthy_def resolvePath_def normalizeString_def
  fs_functions_def fs_bare_def fs_both_def fs_no_routes_def fs_functions_file_def
  fs_old_bundle_def build_def buildFns_def buildRaw_def workerScriptPath_def
  functionsOptions_def rawWorkerOptions_def effective_outfile_def emit_def
  buildFunctions_spec_def example_scan_def example_compile_def example_buildRawWorker_def
  writeBundle_def dirname_def join_def normalize_def translate_def extract_d1Databases_def
  utf8_decode_def utf8_start_def fs_eval

lemma build_without_directory:
  assumes "\<not> truthy_opt (directory args)"
  shows "build E args d1 st = buildFns E args d1 st"
  using assms by (simp add: build_def workerScriptPath_def truthy_opt_def split: option.splits)

lemma build_with_directory:
  assumes "directory args = Some d" and "truthy d"
  shows "build E args d1 st
           = buildRaw E args d1 (resolvePath (cwd E) [d, ''_worker.js'']) st"
  using assms resolvePath_nonempty [of "cwd E" "[d, ''_worker.js'']"]
  by (simp add: build_def workerScriptPath_def truthy_def)

lemma calls_buildRaw:
  "builder_calls (events (snd (buildRaw E args d1 p st)))
     = builder_calls (events st) @ [BuildRawWorkerCall (rawWorkerOptions E args d1 p)]"
  by (simp add: buildRaw_def Let_def split: prod.splits sum.splits)

lemma calls_buildFns:
  "builder_calls (events (snd (buildFns E args d1 st)))
     = builder_calls (events st) @
       (if truthy (functionsDirectory args)
        then [BuildFunctionsCall (functionsOptions E args d1)] else [])"
  by (simp add: buildFns_def Let_def split: prod.splits sum.splits)

lemma calls_Handler:
  assumes "\<not> missingInput (cwd E) args (files st)"
    and "extract_d1Databases (bindings args) = Inr d1"
  shows "builder_calls (events (snd (Handler E args st)))
           = builder_calls (events (snd (build E args d1 (announced E args st))))"
proof (cases "build E args d1 (announced E args st)")
  case (Pair r st3)
  show ?thesis
  proof (cases r)
    case (Inl e)
    with Pair Handler_build_error [OF assms] show ?thesis by simp
  next
    case (Inr res)
    with Pair have b: "build E args d1 (announced E args st) = (Inr res, st3)" by simp
    obtain r4 st4 where w:
      "writeBundle E (experimentalWorkerBundle args) (effective_outfile args) res st3 = (r4, st4)"
      by (cases "writeBundle E (experimentalWorkerBundle args) (effective_outfile args) res st3")
    have "events st4 = events st3"
      using events_writeBundle [of E "experimentalWorkerBundle args" "effective_outfile args" res st3]
        w by simp
    then show ?thesis
      using Handler_built [OF assms b] w b by (cases r4) simp_all
  qed
qed

subsection \<open>Missing inputs\<close>

text \<open>
  C5, as the code has it. With no directory of static files given (or an empty one), the
  functions directory at its default \<^verbatim>\<open>functions\<close> and nothing to be found at that
  path, neither a directory nor any other file, the handler throws a \<^verbatim>\<open>FatalError\<close>
  with the message for missing inputs and no exit code of its own, so the default one; it
  throws nothing else there, calls no builder and leaves the files as they were. The test
  is \<^verbatim>\<open>existsSync\<close>: whenever something is found at the path, be it a regular file, the
  handler goes on, and calls the builder of the functions once the bindings are read.
\<close>

theorem missing_input_throws_FatalError:
  assumes "\<not> truthy_opt (directory args)"
    and "functionsDirectory args = ''functions''"
    and "\<not> existsSync (cwd E) (files st) ''functions''"
  shows "fst (Handler E args st) = Inl (FatalError (missingInputMessage ''functions'') None)
         \<and> files (snd (Handler E args st)) = files st
         \<and> builder_calls (events (snd (Handler E args st))) = builder_calls (events st)
         \<and> (lookup_path (cwd E) (files st) ''functions'' = NoEntry
              \<or> lookup_path (cwd E) (files st) ''functions'' = NotDirectory)
         \<and> (\<forall>st' d1 c n.
               lookup_path (cwd E) (files st') ''functions'' = Found c n
               \<and> extract_d1Databases (bindings args) = Inr d1 \<longrightarrow>
               builder_calls (events (snd (Handler E args st')))
                 = builder_calls (events st') @ [BuildFunctionsCall (functionsOptions E args d1)])"
proof -
  have "missingInput (cwd E) args (files st)"
    using assms by (simp add: missingInput_def)
  from Handler_missing [OF this] assms(2)
  have a: "fst (Handler E args st) = Inl (FatalError (missingInputMessage ''functions'') None)"
    "files (snd (Handler E args st)) = files st"
    "builder_calls (events (snd (Handler E args st))) = builder_calls (events st)"
    by simp_all
  have b: "lookup_path (cwd E) (files st) ''functions'' = NoEntry
           \<or> lookup_path (cwd E) (files st) ''functions'' = NotDirectory"
    using assms(3) by (simp add: existsSync_def split: lookup.splits)
  have c: "builder_calls (events (snd (Handler E args st')))
             = builder_calls (events st') @ [BuildFunctionsCall (functionsOptions E args d1)]"
    if "lookup_path (cwd E) (files st') ''functions'' = Found c n"
      and "extract_d1Databases (bindings args) = Inr d1"
    for st' d1 c n
  proof -
    have nm: "\<not> missingInput (cwd E) args (files st')"
      using that(1) assms(2) by (simp add: missingInput_def existsSync_def)
    have t: "truthy (functionsDirectory args)"
      using assms(2) by (simp add: truthy_def)
    from calls_Handler [OF nm that(2)] build_without_directory [OF assms(1)] t
    show ?thesis by (simp add: calls_buildFns)
  qed
  show ?thesis using a b c by blast
qed

lemma example_no_functions:
  "\<not> existsSync (cwd example_env) (files (state0 fs_bare)) ''functions''"
  by (simp add: example_env_def state0_def fs_bare_def fs_eval)

theorem missing_input_throws_FatalError_witness:
  "\<not> truthy_opt (directory args_default)
   \<and> functionsDirectory args_default = ''functions''
   \<and> \<not> existsSync (cwd example_env) (files (state0 fs_bare)) ''functions''
   \<and> fst (Handler example_env args_default (state0 fs_bare))
       = Inl (FatalError (missingInputMessage ''functions'') None)
   \<and> files (snd (Handler example_env args_default (state0 fs_bare))) = fs_bare"
proof -
  have a: "\<not> truthy_opt (directory args_default)"
    by (simp add: args_default_def Options_def no_flags_def truthy_opt_def)
  have b: "functionsDirectory args_default = ''functions''"
    by (simp add: args_default_def Options_def no_flags_def default_to_def)
  from missing_input_throws_FatalError [OF a b example_no_functions] a b example_no_functions
  show ?thesis by (simp add: state0_def)
qed

text \<open>
  C5, as it is stated, fails where the default functions directory does not exist because
  a regular file stands at its path: the test for missing inputs passes, and the run ends
  in the error of the builder, which is not the \<^verbatim>\<open>FatalError\<close> for missing inputs.
\<close>

theorem regular_file_passes_for_functions_directory:
  "\<not> truthy_opt (directory args_default)
   \<and> functionsDirectory args_default = ''functions''
   \<and> lookup_path (cwd example_env) fs_functions_file ''functions''
       = Found [''functions'', ''proj''] (File ''not a directory'')
   \<and> fst (Handler example_env args_default (state0 fs_functions_file))
       = Inl (Error ''Could not read the functions directory'')"
  by (simp add: args_default_def handler_eval)

subsection \<open>The bindings\<close>

lemmas json_eval =
  JSON_parse_def is_ws_def is_digit_def is_num_char_def cons_token_def value_step_def
  key_step_def

lemma JSON_parse_empty: "JSON_parse [] = None"
  by (simp add: JSON_parse_def)

lemma JSON_parse_open_brace: "JSON_parse ''{'' = None"
  by (simp add: json_eval)

lemma JSON_parse_example:
  "JSON_parse ''{\"d1_databases\":{\"DB1\":{},\"DB2\":{}}}''
     = Some (JObject [(''d1_databases'', JObject [(''DB1'', JObject []), (''DB2'', JObject [])])])"
  by (simp add: json_eval)

lemma set_Object_keys: "set (Object_keys (JObject cs)) = fst ` set cs"
  by auto

lemma extract_parsed:
  assumes "JSON_parse blob = Some j"
  shows "extract_d1Databases (Some blob)
           = Inr (Some (Object_keys (or_empty_object (get_d1_databases j))))"
proof -
  have "blob \<noteq> []" using assms JSON_parse_empty by auto
  then show ?thesis using assms by (simp add: extract_d1Databases_def truthy_def)
qed

lemma extract_unparsed:
  assumes "truthy blob" and "JSON_parse blob = None"
  shows "extract_d1Databases (Some blob) = Inl bindingsParseError"
  using assms by (simp add: extract_d1Databases_def)

text \<open>
  C6. Without a bindings blob \<^verbatim>\<open>d1Databases\<close> stays \<^verbatim>\<open>undefined\<close>, which is not the
  empty list. A blob that parses gives the keys of its \<^verbatim>\<open>d1_databases\<close> property: the
  empty list when the parsed value has no such property, and for an object under that
  property exactly its keys. The blob \<^verbatim>\<open>{"d1_databases":{"DB1":{},"DB2":{}}}\<close> gives
  \<^verbatim>\<open>DB1\<close> and \<^verbatim>\<open>DB2\<close>.
\<close>

theorem d1Databases_are_the_keys:
  "extract_d1Databases None = Inr None
   \<and> Inr None \<noteq> (Inr (Some []) :: exn + string list option)
   \<and> (\<forall>blob j. JSON_parse blob = Some j \<longrightarrow>
         extract_d1Databases (Some blob)
           = Inr (Some (Object_keys (or_empty_object (get_d1_databases j)))))
   \<and> (\<forall>blob j. JSON_parse blob = Some j \<and> get_d1_databases j = None \<longrightarrow>
         extract_d1Databases (Some blob) = Inr (Some []))
   \<and> (\<forall>blob ms cs. JSON_parse blob = Some (JObject ms)
          \<and> map_of ms ''d1_databases'' = Some (JObject cs) \<longrightarrow>
         (\<exists>ks. extract_d1Databases (Some blob) = Inr (Some ks) \<and> set ks = fst ` set cs))
   \<and> extract_d1Databases (Some ''{\"d1_databases\":{\"DB1\":{},\"DB2\":{}}}'')
       = Inr (Some [''DB1'', ''DB2''])"
proof -
  have none: "extract_d1Databases None = Inr None"
    by (simp add: extract_d1Databases_def)
  have absent: "extract_d1Databases (Some blob) = Inr (Some [])"
    if "JSON_parse blob = Some j" and "get_d1_databases j = None" for blob j
    using extract_parsed [OF that(1)] that(2) by (simp add: or_empty_object_def)
  have object: "\<exists>ks. extract_d1Databases (Some blob) = Inr (Some ks) \<and> set ks = fst ` set cs"
    if "JSON_parse blob = Some (JObject ms)" and "map_of ms ''d1_databases'' = Some (JObject cs)"
    for blob ms cs
  proof -
    have "extract_d1Databases (Some blob) = Inr (Some (Object_keys (JObject cs)))"
      using extract_parsed [OF that(1)] that(2) by (simp add: or_empty_object_def)
    then show ?thesis using set_Object_keys by blast
  qed
  have example: "extract_d1Databases (Some ''{\"d1_databases\":{\"DB1\":{},\"DB2\":{}}}'')
                   = Inr (Some [''DB1'', ''DB2''])"
    unfolding extract_parsed [OF JSON_parse_example]
    by (simp add: or_empty_object_def is_array_index_def is_digit_def)
  show ?thesis using none extract_parsed absent object example by blast
qed

theorem d1Databases_are_the_keys_witness:
  "JSON_parse ''{\"d1_databases\":{\"DB1\":{},\"DB2\":{}}}''
     = Some (JObject [(''d1_databases'', JObject [(''DB1'', JObject []), (''DB2'', JObject [])])])
   \<and> extract_d1Databases (Some ''{\"d1_databases\":{\"DB1\":{},\"DB2\":{}}}'')
       = Inr (Some (Object_keys (JObject [(''DB1'', JObject []), (''DB2'', JObject [])])))
   \<and> JSON_parse ''{}'' = Some (JObject [])
   \<and> extract_d1Databases (Some ''{}'') = Inr (Some [])"
proof -
  have e: "JSON_parse ''{}'' = Some (JObject [])"
    by (simp add: json_eval)
  have g: "get_d1_databases (JObject []) = None"
    by simp
  from d1Databases_are_the_keys JSON_parse_example
  have a: "extract_d1Databases (Some ''{\"d1_databases\":{\"DB1\":{},\"DB2\":{}}}'')
             = Inr (Some (Object_keys (or_empty_object (get_d1_databases
                 (JObject [(''d1_databases'', JObject [(''DB1'', JObject []), (''DB2'', JObject [])])])))))"
    by blast
  from d1Databases_are_the_keys e g
  have b: "extract_d1Databases (Some ''{}'') = Inr (Some [])"
    by blast
  show ?thesis using JSON_parse_example a b e by (simp add: or_empty_object_def)
qed

text \<open>
  C7, as the code has it. A bindings blob that is not empty and that \<^verbatim>\<open>JSON.parse\<close>
  rejects, \<^verbatim>\<open>{\<close> for one, makes the extraction throw the \<^verbatim>\<open>FatalError\<close> with the exit
  code 1 and no list of bindings; the handler, once past its test for missing inputs, throws
  that error, calls no builder and leaves the files as they were. The empty blob is taken
  for an absent one: \<^verbatim>\<open>d1Databases\<close> stays \<^verbatim>\<open>undefined\<close> and nothing is thrown.
\<close>

theorem malformed_bindings_throw:
  assumes "truthy blob" and "JSON_parse blob = None"
  shows "extract_d1Databases (Some blob)
           = Inl (FatalError ''Could not parse a valid set of 'bindings'.'' (Some 1))
         \<and> (\<forall>E args st. bindings args = Some blob \<and> \<not> missingInput (cwd E) args (files st) \<longrightarrow>
               fst (Handler E args st)
                 = Inl (FatalError ''Could not parse a valid set of 'bindings'.'' (Some 1))
               \<and> files (snd (Handler E args st)) = files st
               \<and> builder_calls (events (snd (Handler E args st))) = builder_calls (events st))
         \<and> extract_d1Databases (Some []) = Inr None"
proof -
  have x: "extract_d1Databases (Some blob) = Inl bindingsParseError"
    using assms by (rule extract_unparsed)
  have h: "fst (Handler E args st) = Inl bindingsParseError
           \<and> files (snd (Handler E args st)) = files st
           \<and> builder_calls (events (snd (Handler E args st))) = builder_calls (events st)"
    if "bindings args = Some blob" and "\<not> missingInput (cwd E) args (files st)" for E args st
  proof -
    have "extract_d1Databases (bindings args) = Inl bindingsParseError"
      using x that(1) by simp
    from Handler_bindings_error [OF that(2) this] show ?thesis by simp
  qed
  have e: "extract_d1Databases (Some []) = Inr None"
    by (simp add: extract_d1Databases_def truthy_def)
  show ?thesis using x h e unfolding bindingsParseError_def by blast
qed

theorem malformed_bindings_throw_witness:
  "truthy ''{'' \<and> JSON_parse ''{'' = None
   \<and> extract_d1Databases (Some ''{'')
       = Inl (FatalError ''Could not parse a valid set of 'bindings'.'' (Some 1))"
  using malformed_bindings_throw [of "''{''"] JSON_parse_open_brace
  by (simp add: truthy_def)

text \<open>
  C7, as it is stated, fails at the empty blob: it is present, \<^verbatim>\<open>JSON.parse\<close> rejects
  it, and yet the extraction throws nothing, and a whole run of the handler succeeds.
\<close>

theorem empty_bindings_do_not_throw:
  "JSON_parse [] = None
   \<and> extract_d1Databases (Some []) = Inr None
   \<and> fst (Handler example_env ((Options no_flags)\<lparr> bindings := Some [] \<rparr>) (state0 fs_functions))
       = Inr ()"
proof -
  have e: "extract_d1Databases (Some []) = Inr None"
    by (simp add: extract_d1Databases_def truthy_def)
  have h: "fst (Handler example_env ((Options no_flags)\<lparr> bindings := Some [] \<rparr>) (state0 fs_functions))
             = Inr ()"
    by (simp add: handler_eval e)
  show ?thesis using JSON_parse_empty e h by simp
qed

subsection \<open>The choice of the builder\<close>

text \<open>
  C1, as the code has it. Once past the test for missing inputs and the bindings, the
  handler calls exactly one builder, or none. It calls \<^verbatim>\<open>buildRawWorker\<close>, with the entry
  path \<^verbatim>\<open>resolve(directory, "_worker.js")\<close>, exactly when a directory of static files is
  given and is not empty: the file system is not consulted, so the entry script need not
  exist, and a functions directory makes no difference. Otherwise it calls
  \<^verbatim>\<open>buildFunctions\<close> with the functions directory it was given if that is not empty, and
  no builder at all if it is.
\<close>

theorem builder_follows_directory:
  assumes "\<not> missingInput (cwd E) args (files st)"
    and "extract_d1Databases (bindings args) = Inr d1"
  shows "builder_calls (events (snd (Handler E args st)))
           = builder_calls (events st) @
             (case directory args of
                Some d \<Rightarrow>
                  if truthy d then
                    [BuildRawWorkerCall
                       (rawWorkerOptions E args d1 (resolvePath (cwd E) [d, ''_worker.js'']))]
                  else if truthy (functionsDirectory args) then
                    [BuildFunctionsCall (functionsOptions E args d1)]
                  else []
              | None \<Rightarrow>
                  if truthy (functionsDirectory args) then
                    [BuildFunctionsCall (functionsOptions E args d1)]
                  else [])
         \<and> (\<forall>p. rw_workerScriptPath (rawWorkerOptions E args d1 p) = p)
         \<and> fn_functionsDirectory (functionsOptions E args d1) = functionsDirectory args"
proof -
  have opts: "(\<forall>p. rw_workerScriptPath (rawWorkerOptions E args d1 p) = p)
              \<and> fn_functionsDirectory (functionsOptions E args d1) = functionsDirectory args"
    by (simp add: rawWorkerOptions_def functionsOptions_def)
  show ?thesis
  proof (cases "directory args")
    case None
    then have "\<not> truthy_opt (directory args)" by (simp add: truthy_opt_def)
    from build_without_directory [OF this] calls_Handler [OF assms] None opts
    show ?thesis by (simp add: calls_buildFns)
  next
    case (Some d)
    show ?thesis
    proof (cases "truthy d")
      case True
      from build_with_directory [OF Some True] calls_Handler [OF assms] Some True opts
      show ?thesis by (simp add: calls_buildRaw)
    next
      case False
      with Some have "\<not> truthy_opt (directory args)" by (simp add: truthy_opt_def)
      from build_without_directory [OF this] calls_Handler [OF assms] Some False opts
      show ?thesis by (simp add: calls_buildFns)
    qed
  qed
qed

lemma args_public_passes:
  "\<not> missingInput (cwd example_env) args_public (files (state0 fs))"
  "extract_d1Databases (bindings args_public) = Inr None"
  by (simp_all add: args_public_def handler_eval)

theorem builder_follows_directory_witness:
  "\<not> missingInput (cwd example_env) args_public (files (state0 fs_both))
   \<and> extract_d1Databases (bindings args_public) = Inr None
   \<and> existsSync ''/proj'' fs_both ''public/_worker.js''
   \<and> existsSync ''/proj'' fs_both ''functions''
   \<and> builder_calls (events (snd (Handler example_env args_public (state0 fs_both))))
       = [BuildRawWorkerCall
            (rawWorkerOptions example_env args_public None ''/proj/public/_worker.js'')]"
proof -
  have a: "\<not> missingInput (cwd example_env) args_public (files (state0 fs_both))"
    by (rule args_public_passes)
  have d: "directory args_public = Some ''public''"
    by (simp add: args_public_def Options_def no_flags_def)
  have r: "resolvePath (cwd example_env) [''public'', ''_worker.js''] = ''/proj/public/_worker.js''"
    by (simp add: example_env_def resolvePath_def normalizeString_def isAbsolute_def)
  have e: "existsSync ''/proj'' fs_both ''public/_worker.js''"
    "existsSync ''/proj'' fs_both ''functions''"
    by (simp_all add: fs_both_def fs_functions_def fs_bare_def fs_eval)
  from builder_follows_directory [OF a args_public_passes(2)]
  have "builder_calls (events (snd (Handler example_env args_public (state0 fs_both))))
          = [BuildRawWorkerCall
               (rawWorkerOptions example_env args_public None ''/proj/public/_worker.js'')]"
    by (simp add: d r truthy_def state0_def)
  then show ?thesis using a args_public_passes(2) e by simp
qed

text \<open>
  C1, as it is stated, fails: in a project whose directory of static files holds no
  \<^verbatim>\<open>_worker.js\<close>, and whose functions directory holds a route, the handler still calls
  \<^verbatim>\<open>buildRawWorker\<close> on the script that is not there, and never \<^verbatim>\<open>buildFunctions\<close>.
\<close>

theorem raw_worker_selected_without_script:
  "\<not> existsSync ''/proj'' fs_functions ''public/_worker.js''
   \<and> existsSync ''/proj'' fs_functions ''functions/index.js''
   \<and> builder_calls (events (snd (Handler example_env args_public (state0 fs_functions))))
       = [BuildRawWorkerCall
            (rawWorkerOptions example_env args_public None ''/proj/public/_worker.js'')]
   \<and> fst (Handler example_env args_public (state0 fs_functions))
       = Inl (Error ''Could not resolve the entry point'')"
proof -
  have e: "\<not> existsSync ''/proj'' fs_functions ''public/_worker.js''"
    "existsSync ''/proj'' fs_functions ''functions/index.js''"
    by (simp_all add: fs_functions_def fs_bare_def fs_eval)
  have h: "Handler example_env args_public (state0 fs_functions)
             = (Inl (Error ''Could not resolve the entry point''),
                \<lparr> files = fs_functions,
                  events = [BuildRawWorkerCall
                    (rawWorkerOptions example_env args_public None ''/proj/public/_worker.js'')] \<rparr>)"
    by (simp add: args_public_def handler_eval)
  show ?thesis using e by (simp add: h)
qed

subsection \<open>Errors of the functions builder\<close>

lemma buildFns_error:
  assumes "truthy (functionsDirectory args)"
    and "buildFunctions E (functionsOptions E args d1) (files st) = (Inl e, fs')"
  shows "buildFns E args d1 st
           = (Inl (translate args e),
              (emit (BuildFunctionsCall (functionsOptions E args d1)) st)\<lparr> files := fs' \<rparr>)"
  using assms by (simp add: buildFns_def Let_def)

lemma Handler_functions_error:
  assumes "\<not> truthy_opt (directory args)"
    and "truthy (functionsDirectory args)"
    and "\<not> missingInput (cwd E) args (files st)"
    and "extract_d1Databases (bindings args) = Inr d1"
    and "buildFunctions E (functionsOptions E args d1) (files st) = (Inl e, fs')"
  shows "Handler E args st
           = (Inl (translate args e),
              (emit (BuildFunctionsCall (functionsOptions E args d1)) (announced E args st))
                \<lparr> files := fs' \<rparr>)"
proof -
  let ?st = "announced E args st"
  have b: "buildFunctions E (functionsOptions E args d1) (files ?st) = (Inl e, fs')"
    using assms(5) by simp
  have "build E args d1 ?st = buildFns E args d1 ?st"
    using assms(1) by (rule build_without_directory)
  also have "\<dots> = (Inl (translate args e),
                    (emit (BuildFunctionsCall (functionsOptions E args d1)) ?st)\<lparr> files := fs' \<rparr>)"
    using assms(2) b by (rule buildFns_error)
  finally show ?thesis
    by (rule Handler_build_error [OF assms(3) assms(4)])
qed

lemma translate_no_routes:
  "translate args (FunctionsNoRoutesError m)
     = FatalError (getFunctionsNoRoutesWarning (functionsDirectory args))
         (Some EXIT_CODE_FUNCTIONS_NO_ROUTES_ERROR)"
  by (simp add: translate_def)

lemma translate_other:
  assumes "\<forall>m. e \<noteq> FunctionsNoRoutesError m"
  shows "translate args e = e"
  using assms by (cases e) (simp_all add: translate_def)

lemma buildFunctions_spec_no_routes:
  assumes "scan (fn_functionsDirectory opts) fs = Inr []"
  shows "buildFunctions_spec scan compile opts fs
           = (Inl (FunctionsNoRoutesError
                     (''Failed to find any routes while compiling Functions in: ''
                        @ fn_functionsDirectory opts)),
              fs)"
  using assms by (simp add: buildFunctions_spec_def)

text \<open>
  C4. In the functions mode, with the builder of the specification and a functions
  directory whose scan yields no route, the handler throws a \<^verbatim>\<open>FatalError\<close> whose
  message is \<^verbatim>\<open>getFunctionsNoRoutesWarning(functionsDirectory)\<close>, which ends in the name
  of the functions directory, and whose exit code is
  \<^verbatim>\<open>EXIT_CODE_FUNCTIONS_NO_ROUTES_ERROR\<close>; the builder was called once, and every file
  is as it was before the run: nothing is written or modified, with or without the bundle
  mode. That code is neither 0 nor 1, the code of the error for bindings, and the error for
  missing inputs carries no code. Whatever builder the environment holds, its
  \<^verbatim>\<open>FunctionsNoRoutesError\<close> is replaced by that \<^verbatim>\<open>FatalError\<close>, any other error
  it throws is thrown again as it is, and the handler writes no file after either.
\<close>

theorem no_routes_error_is_translated:
  assumes "\<not> truthy_opt (directory args)"
    and "truthy (functionsDirectory args)"
    and "\<not> missingInput (cwd E) args (files st)"
    and "extract_d1Databases (bindings args) = Inr d1"
  shows "(\<forall>scan compile.
            buildFunctions E = buildFunctions_spec scan compile
            \<and> scan (functionsDirectory args) (files st) = Inr [] \<longrightarrow>
            fst (Handler E args st)
              = Inl (FatalError (getFunctionsNoRoutesWarning (functionsDirectory args))
                       (Some EXIT_CODE_FUNCTIONS_NO_ROUTES_ERROR))
            \<and> files (snd (Handler E args st)) = files st
            \<and> builder_calls (events (snd (Handler E args st)))
                = builder_calls (events st) @ [BuildFunctionsCall (functionsOptions E args d1)])
         \<and> (\<forall>m fs'.
               buildFunctions E (functionsOptions E args d1) (files st)
                 = (Inl (FunctionsNoRoutesError m), fs') \<longrightarrow>
               fst (Handler E args st)
                 = Inl (FatalError (getFunctionsNoRoutesWarning (functionsDirectory args))
                          (Some EXIT_CODE_FUNCTIONS_NO_ROUTES_ERROR))
               \<and> files (snd (Handler E args st)) = fs')
         \<and> (\<forall>e fs'.
               buildFunctions E (functionsOptions E args d1) (files st) = (Inl e, fs')
               \<and> (\<forall>m. e \<noteq> FunctionsNoRoutesError m) \<longrightarrow>
               fst (Handler E args st) = Inl e
               \<and> files (snd (Handler E args st)) = fs'
               \<and> builder_calls (events (snd (Handler E args st)))
                   = builder_calls (events st) @ [BuildFunctionsCall (functionsOptions E args d1)])
         \<and> EXIT_CODE_FUNCTIONS_NO_ROUTES_ERROR \<noteq> 0
         \<and> EXIT_CODE_FUNCTIONS_NO_ROUTES_ERROR \<noteq> 1
         \<and> FatalError (getFunctionsNoRoutesWarning (functionsDirectory args))
               (Some EXIT_CODE_FUNCTIONS_NO_ROUTES_ERROR) \<noteq> bindingsParseError
         \<and> (\<forall>dir. FatalError (getFunctionsNoRoutesWarning (functionsDirectory args))
                     (Some EXIT_CODE_FUNCTIONS_NO_ROUTES_ERROR)
                   \<noteq> FatalError (missingInputMessage dir) None)
         \<and> (\<exists>pre. getFunctionsNoRoutesWarning (functionsDirectory args)
                     = pre @ functionsDirectory args)"
proof -
  note h = Handler_functions_error [OF assms]
  have spec: "fst (Handler E args st)
              = Inl (FatalError (getFunctionsNoRoutesWarning (functionsDirectory args))
                       (Some EXIT_CODE_FUNCTIONS_NO_ROUTES_ERROR))
            \<and> files (snd (Handler E args st)) = files st
            \<and> builder_calls (events (snd (Handler E args st)))
                = builder_calls (events st) @ [BuildFunctionsCall (functionsOptions E args d1)]"
    if "buildFunctions E = buildFunctions_spec scan compile"
      and "scan (functionsDirectory args) (files st) = Inr []"
    for scan compile
  proof -
    have "scan (fn_functionsDirectory (functionsOptions E args d1)) (files st) = Inr []"
      using that(2) by (simp add: functionsOptions_def)
    with that(1)
    have "buildFunctions E (functionsOptions E args d1) (files st)
            = (Inl (FunctionsNoRoutesError
                      (''Failed to find any routes while compiling Functions in: ''
                         @ fn_functionsDirectory (functionsOptions E args d1))),
               files st)"
      by (simp add: buildFunctions_spec_def)
    from h [OF this] show ?thesis by (simp add: translate_no_routes)
  qed
  have general: "fst (Handler E args st)
                 = Inl (FatalError (getFunctionsNoRoutesWarning (functionsDirectory args))
                          (Some EXIT_CODE_FUNCTIONS_NO_ROUTES_ERROR))
               \<and> files (snd (Handler E args st)) = fs'"
    if "buildFunctions E (functionsOptions E args d1) (files st)
          = (Inl (FunctionsNoRoutesError m), fs')"
    for m fs'
    using h [OF that] by (simp add: translate_no_routes)
  have other: "fst (Handler E args st) = Inl e
               \<and> files (snd (Handler E args st)) = fs'
               \<and> builder_calls (events (snd (Handler E args st)))
                   = builder_calls (events st) @ [BuildFunctionsCall (functionsOptions E args d1)]"
    if "buildFunctions E (functionsOptions E args d1) (files st) = (Inl e, fs')"
      and "\<forall>m. e \<noteq> FunctionsNoRoutesError m"
    for e fs'
    using h [OF that(1)] translate_other [OF that(2)] by simp
  have codes: "EXIT_CODE_FUNCTIONS_NO_ROUTES_ERROR \<noteq> 0"
    "EXIT_CODE_FUNCTIONS_NO_ROUTES_ERROR \<noteq> 1"
    by (simp_all add: EXIT_CODE_FUNCTIONS_NO_ROUTES_ERROR_def)
  have distinct: "FatalError (getFunctionsNoRoutesWarning (functionsDirectory args))
                    (Some EXIT_CODE_FUNCTIONS_NO_ROUTES_ERROR) \<noteq> bindingsParseError"
    "\<forall>dir. FatalError (getFunctionsNoRoutesWarning (functionsDirectory args))
             (Some EXIT_CODE_FUNCTIONS_NO_ROUTES_ERROR)
           \<noteq> FatalError (missingInputMessage dir) None"
    using codes by (simp_all add: bindingsParseError_def)
  have names: "\<exists>pre. getFunctionsNoRoutesWarning (functionsDirectory args)
                     = pre @ functionsDirectory args"
    by (simp add: getFunctionsNoRoutesWarning_def)
  from spec general other codes distinct names show ?thesis
    by (intro conjI allI impI) blast+
qed

lemma args_default_passes:
  "\<not> truthy_opt (directory args_default)"
  "truthy (functionsDirectory args_default)"
  "\<not> missingInput (cwd example_env) args_default (files (state0 fs_no_routes))"
  "extract_d1Databases (bindings args_default) = Inr None"
  by (simp_all add: args_default_def handler_eval)

lemma example_scan_no_routes:
  "buildFunctions example_env
     = buildFunctions_spec (example_scan ''/proj'') (example_compile ''/proj'')"
  "example_scan ''/proj'' (functionsDirectory args_default) (files (state0 fs_no_routes)) = Inr []"
  by (simp_all add: args_default_def example_env_def example_scan_def Options_def no_flags_def
      default_to_def state0_def fs_no_routes_def fs_bare_def fs_eval)

lemma args_api_passes:
  "\<not> truthy_opt (directory args_api)"
  "truthy (functionsDirectory args_api)"
  "\<not> missingInput (cwd example_env) args_api (files (state0 fs_bare))"
  "extract_d1Databases (bindings args_api) = Inr None"
  by (simp_all add: args_api_def handler_eval)

lemma example_unreadable:
  "buildFunctions example_env (functionsOptions example_env args_api None)
       (files (state0 fs_bare))
     = (Inl (Error ''Could not read the functions directory''), fs_bare)"
  by (simp add: args_api_def handler_eval)

theorem no_routes_error_is_translated_witness:
  "\<not> truthy_opt (directory args_default)
   \<and> truthy (functionsDirectory args_default)
   \<and> \<not> missingInput (cwd example_env) args_default (files (state0 fs_no_routes))
   \<and> extract_d1Databases (bindings args_default) = Inr None
   \<and> buildFunctions example_env
       = buildFunctions_spec (example_scan ''/proj'') (example_compile ''/proj'')
   \<and> example_scan ''/proj'' (functionsDirectory args_default) (files (state0 fs_no_routes))
       = Inr []
   \<and> fst (Handler example_env args_default (state0 fs_no_routes))
       = Inl (FatalError ''No routes found when building Functions directory: functions''
                (Some 156))
   \<and> files (snd (Handler example_env args_default (state0 fs_no_routes))) = fs_no_routes
   \<and> buildFunctions example_env (functionsOptions example_env args_api None)
         (files (state0 fs_bare))
       = (Inl (Error ''Could not read the functions directory''), fs_bare)
   \<and> fst (Handler example_env args_api (state0 fs_bare))
       = Inl (Error ''Could not read the functions directory'')"
proof -
  note t = no_routes_error_is_translated
    [where E = example_env and args = args_default and st = "state0 fs_no_routes"
       and ?d1.0 = None, OF args_default_passes]
  note u = no_routes_error_is_translated
    [where E = example_env and args = args_api and st = "state0 fs_bare"
       and ?d1.0 = None, OF args_api_passes]
  have w: "getFunctionsNoRoutesWarning (functionsDirectory args_default)
             = ''No routes found when building Functions directory: functions''"
    by (simp add: args_default_def getFunctionsNoRoutesWarning_def Options_def
        no_flags_def default_to_def)
  have c: "EXIT_CODE_FUNCTIONS_NO_ROUTES_ERROR = 156"
    by (simp add: EXIT_CODE_FUNCTIONS_NO_ROUTES_ERROR_def)
  from t example_scan_no_routes
  have a: "fst (Handler example_env args_default (state0 fs_no_routes))
             = Inl (FatalError (getFunctionsNoRoutesWarning (functionsDirectory args_default))
                      (Some EXIT_CODE_FUNCTIONS_NO_ROUTES_ERROR))"
    and b: "files (snd (Handler example_env args_default (state0 fs_no_routes)))
              = files (state0 fs_no_routes)"
    by blast+
  have e: "\<forall>m. Error ''Could not read the functions directory'' \<noteq> FunctionsNoRoutesError m"
    by simp
  from u example_unreadable e
  have d: "fst (Handler example_env args_api (state0 fs_bare))
             = Inl (Error ''Could not read the functions directory'')"
    by blast
  have f: "files (state0 fs_no_routes) = fs_no_routes"
    by (simp add: state0_def)
  show ?thesis
    using args_default_passes example_scan_no_routes example_unreadable a b d
    unfolding w c f by simp
qed

subsection \<open>Writing the bundle\<close>

lemma writeFileSync_ok:
  assumes "open_for_write wd fs out = Inr a"
  shows "writeFileSync wd fs out bytes = Inr (fs(a \<mapsto> File bytes))"
  using assms by (simp add: writeFileSync_def)

lemma open_for_write_worker_bundle:
  assumes "open_for_write wd fs ''_worker.bundle'' = Inr a"
  shows "a = abs_path (''_worker.bundle'' # start_dir wd ''_worker.bundle'')"
  using assms
  by (auto simp: open_for_write_def Let_def
      split: option.splits node.splits lookup.splits if_splits)

lemma writeBundle_requested:
  assumes "createUploadWorkerBundleContents (createWorkerUploadForm E) (boundary E) (cwd E)
             (files st) b = Inr bytes"
    and "open_for_write (cwd E) (files st) out = Inr a"
  shows "writeBundle E True out (Some b) st
           = (Inr (), st\<lparr> files := (files st)(a \<mapsto> File bytes) \<rparr>)"
  using assms(1) writeFileSync_ok [OF assms(2)]
  by (simp add: writeBundle_def)

lemma writeBundle_not_requested:
  "writeBundle E False out res st = (Inr (), st)"
  by (simp add: writeBundle_def)

lemma writeBundle_failed:
  assumes "writeBundle E requested out res st = (Inl e, st')"
  shows "st' = st"
  using assms by (auto simp: writeBundle_def split: if_splits option.splits sum.splits)

lemma Handler_writes:
  assumes "\<not> missingInput (cwd E) args (files st0)"
    and "extract_d1Databases (bindings args) = Inr d1"
    and "build E args d1 (announced E args st0) = (Inr (Some b), st)"
    and "experimentalWorkerBundle args"
    and "createUploadWorkerBundleContents (createWorkerUploadForm E) (boundary E) (cwd E)
           (files st) b = Inr bytes"
    and "open_for_write (cwd E) (files st) ''_worker.bundle'' = Inr a"
  shows "Handler E args st0
           = (Inr (), emit (MetricsEvent ''build pages functions'')
                (st\<lparr> files := (files st)(a \<mapsto> File bytes) \<rparr>))"
proof -
  have e: "effective_outfile args = ''_worker.bundle''"
    using assms(4) by (simp add: effective_outfile_def)
  from assms(6) e have
    "open_for_write (cwd E) (files st) (effective_outfile args) = Inr a"
    by simp
  from Handler_built [OF assms(1,2,3)] assms(4) writeBundle_requested [OF assms(5) this]
  show ?thesis by simp
qed

lemma Handler_does_not_write:
  assumes "\<not> missingInput (cwd E) args (files st0)"
    and "extract_d1Databases (bindings args) = Inr d1"
    and "build E args d1 (announced E args st0) = (Inr res, st)"
    and "\<not> experimentalWorkerBundle args"
  shows "Handler E args st0 = (Inr (), emit (MetricsEvent ''build pages functions'') st)"
  using Handler_built [OF assms(1,2,3)] assms(4) by (simp add: writeBundle_not_requested)

text \<open>The output file that the arguments name has no part in a run of these two kinds.\<close>

lemma rawWorkerOptions_outfile:
  "rawWorkerOptions E (args\<lparr> outfile := out \<rparr>) d1 p = rawWorkerOptions E args d1 p"
  by (simp add: rawWorkerOptions_def)

lemma buildRaw_outfile:
  "buildRaw E (args\<lparr> outfile := out \<rparr>) d1 p st = buildRaw E args d1 p st"
  by (simp add: buildRaw_def rawWorkerOptions_outfile)

lemma functionsOptions_outfile:
  assumes "experimentalWorkerBundle args"
  shows "functionsOptions E (args\<lparr> outfile := out \<rparr>) d1 = functionsOptions E args d1"
  using assms by (simp add: functionsOptions_def effective_outfile_def)

lemma translate_outfile:
  "translate (args\<lparr> outfile := out \<rparr>) e = translate args e"
  by (cases e) (simp_all add: translate_def)

lemma buildFns_outfile:
  assumes "experimentalWorkerBundle args"
  shows "buildFns E (args\<lparr> outfile := out \<rparr>) d1 st = buildFns E args d1 st"
  using assms
  by (simp add: buildFns_def functionsOptions_outfile translate_outfile Let_def
      split: prod.splits sum.splits)

lemma build_outfile_bundle:
  assumes "experimentalWorkerBundle args"
  shows "build E (args\<lparr> outfile := out \<rparr>) d1 st = build E args d1 st"
  using assms
  by (simp add: build_def workerScriptPath_def buildRaw_outfile buildFns_outfile
      split: option.splits)

lemma build_outfile_raw:
  assumes "truthy_opt (directory args)"
  shows "build E (args\<lparr> outfile := out \<rparr>) d1 st = build E args d1 st"
proof -
  from assms obtain d where d: "directory args = Some d" "truthy d"
    by (auto simp: truthy_opt_def split: option.splits)
  have "directory (args\<lparr> outfile := out \<rparr>) = Some d"
    using d(1) by simp
  from build_with_directory [OF this d(2)] build_with_directory [OF d]
  show ?thesis by (simp add: buildRaw_outfile)
qed

lemma writeBundle_outfile:
  "writeBundle E (experimentalWorkerBundle args) (effective_outfile (args\<lparr> outfile := out \<rparr>))
       res st
     = writeBundle E (experimentalWorkerBundle args) (effective_outfile args) res st"
  by (simp add: writeBundle_def effective_outfile_def)

lemma Handler_outfile:
  assumes "\<And>d1 st'. build E (args\<lparr> outfile := out \<rparr>) d1 st' = build E args d1 st'"
  shows "Handler E (args\<lparr> outfile := out \<rparr>) st = Handler E args st"
proof -
  have a: "announced E (args\<lparr> outfile := out \<rparr>) st = announced E args st"
    by (simp add: announced_def)
  have m: "missingInput (cwd E) (args\<lparr> outfile := out \<rparr>) fs = missingInput (cwd E) args fs"
    for fs
    by (simp add: missingInput_def)
  have w: "writeBundle E (experimentalWorkerBundle (args\<lparr> outfile := out \<rparr>))
             (effective_outfile (args\<lparr> outfile := out \<rparr>)) res st'
           = writeBundle E (experimentalWorkerBundle args) (effective_outfile args) res st'"
    for res st'
    using writeBundle_outfile [of E args out res st'] by simp
  have f: "functionsDirectory (args\<lparr> outfile := out \<rparr>) = functionsDirectory args"
    by simp
  have b: "bindings (args\<lparr> outfile := out \<rparr>) = bindings args"
    by simp
  show ?thesis
    unfolding Handler_def a m assms w f b by (rule refl)
qed

text \<open>The example runs that ask for the bundle, and one that does not.\<close>

lemma args_bundle_passes:
  "\<not> missingInput (cwd example_env) args_bundle (files (state0 fs_old_bundle))"
  "extract_d1Databases (bindings args_bundle) = Inr None"
  "experimentalWorkerBundle args_bundle"
  "outfile args_bundle = ''out.js''"
  by (simp_all add: args_bundle_def handler_eval)

lemma example_build:
  "build example_env args_bundle None (announced example_env args_bundle (state0 fs_old_bundle))
     = (Inr (Some built_bundle), built_state)"
  by (simp add: args_bundle_def built_bundle_def built_state_def fs_built_def handler_eval)

lemma example_packaging:
  "createUploadWorkerBundleContents (createWorkerUploadForm example_env) (boundary example_env)
       (cwd example_env) (files built_state) built_bundle
     = Inr example_payload"
proof -
  have f: "lookup_path ''/proj'' fs_built (resolvedEntryPointPath built_bundle)
             = Found [''bundledWorker-0.42.mjs'', ''tmp''] (File ''export default {};'')"
    by (simp add: built_bundle_def fs_built_def fs_old_bundle_def fs_both_def fs_functions_def
        fs_bare_def fs_eval)
  have "mainModule ''/proj'' fs_built built_bundle
          = Inr \<lparr> name = basename (resolvedEntryPointPath built_bundle),
                content = StringContent (utf8_decode ''export default {};''),
                module_type = Some (case bundleType built_bundle of None \<Rightarrow> m_esm
                                    | Some t \<Rightarrow> module_type_of t) \<rparr>"
    by (rule mainModule_of_file) (rule f)
  then have m: "mainModule ''/proj'' fs_built built_bundle
                  = Inr \<lparr> name = ''bundledWorker-0.42.mjs'',
                        content = StringContent ''export default {};'',
                        module_type = Some m_esm \<rparr>"
    by (simp add: built_bundle_def basename_def utf8_decode_def utf8_start_def)
  show ?thesis
    by (simp add: contents_of_mainModule example_env_def built_state_def m example_payload_def)
qed

lemma example_target:
  "open_for_write (cwd example_env) (files built_state) ''_worker.bundle''
     = Inr ''/proj/_worker.bundle''"
  "files built_state ''/proj/_worker.bundle'' = Some (File old_bundle)"
  by (simp_all add: example_env_def built_state_def fs_built_def fs_old_bundle_def fs_both_def
      fs_functions_def fs_bare_def fs_eval)

lemma example_payload_shorter: "length example_payload < length old_bundle"
  by (simp add: example_payload_def old_bundle_def Response_blob_def
      createWorkerUploadForm_spec_def metadata_entry_def module_entry_def encode_entry_def
      entry_part_def worker_def built_bundle_def json_quote_def CRLF_def)

lemma args_raw_outfile_passes:
  "\<not> missingInput (cwd example_env) args_raw_outfile (files (state0 fs_both))"
  "extract_d1Databases (bindings args_raw_outfile) = Inr None"
  "\<not> experimentalWorkerBundle args_raw_outfile"
  "outfile args_raw_outfile = ''out.js''"
  "truthy_opt (directory args_raw_outfile)"
  by (simp_all add: args_raw_outfile_def handler_eval)

lemma example_raw_build:
  "build example_env args_raw_outfile None
       (announced example_env args_raw_outfile (state0 fs_both))
     = (Inr (Some built_bundle),
        \<lparr> files = fs_both(''/tmp/bundledWorker-0.42.mjs'' \<mapsto> File ''export default {};''),
          events = [BuildRawWorkerCall
                      (rawWorkerOptions example_env args_raw_outfile None
                         ''/proj/public/_worker.js'')] \<rparr>)"
  by (simp add: args_raw_outfile_def built_bundle_def handler_eval)

lemma args_functions_bundle_passes:
  "\<not> missingInput (cwd example_env) args_functions_bundle (files (state0 fs_functions))"
  "extract_d1Databases (bindings args_functions_bundle) = Inr None"
  "experimentalWorkerBundle args_functions_bundle"
  "outfile args_functions_bundle = ''dist.js''"
  by (simp_all add: args_functions_bundle_def handler_eval)

lemma example_functions_build:
  "build example_env args_functions_bundle None
       (announced example_env args_functions_bundle (state0 fs_functions))
     = (Inr (Some functions_bundle),
        \<lparr> files = fs_functions_built,
          events = [BuildFunctionsCall
                      (functionsOptions example_env args_functions_bundle None)] \<rparr>)"
  by (simp add: args_functions_bundle_def functions_bundle_def fs_functions_built_def
      handler_eval)

lemma example_functions_packaging:
  "createUploadWorkerBundleContents (createWorkerUploadForm example_env) (boundary example_env)
       (cwd example_env) fs_functions_built functions_bundle
     = Inr functions_payload"
proof -
  have f: "lookup_path ''/proj'' fs_functions_built (resolvedEntryPointPath functions_bundle)
             = Found [''functionsWorker-0.42.js'', ''tmp'']
                 (File ''export function onRequest() {}'')"
    by (simp add: functions_bundle_def fs_functions_built_def fs_functions_def fs_bare_def
        fs_eval)
  have "mainModule ''/proj'' fs_functions_built functions_bundle
          = Inr \<lparr> name = basename (resolvedEntryPointPath functions_bundle),
                content = StringContent (utf8_decode ''export function onRequest() {}''),
                module_type = Some (case bundleType functions_bundle of None \<Rightarrow> m_esm
                                    | Some t \<Rightarrow> module_type_of t) \<rparr>"
    by (rule mainModule_of_file) (rule f)
  then have m: "mainModule ''/proj'' fs_functions_built functions_bundle
                  = Inr \<lparr> name = ''functionsWorker-0.42.js'',
                        content = StringContent ''export function onRequest() {}'',
                        module_type = Some m_esm \<rparr>"
    by (simp add: functions_bundle_def basename_def utf8_decode_def utf8_start_def)
  show ?thesis
    by (simp add: contents_of_mainModule example_env_def m functions_payload_def)
qed

lemma example_functions_target:
  "open_for_write (cwd example_env) fs_functions_built ''_worker.bundle''
     = Inr ''/proj/_worker.bundle''"
  "fs_functions_built ''/proj/dist.js'' = None"
  by (simp_all add: example_env_def fs_functions_built_def fs_functions_def fs_bare_def fs_eval)

text \<open>
  C9, as the code has it. With the bundle requested, a bundle that the packager can package
  and a file \<^verbatim>\<open>_worker.bundle\<close> that can be opened for writing in the working
  directory: the run ends well, the file \<^verbatim>\<open>_worker.bundle\<close> holds the bytes of the
  packager afterwards, all of them and nothing else, whatever it held before, and every
  other path is as the builder left it; the output file that the arguments name plays no
  part. With the bundle not requested the run ends well with the files as the builder left
  them, whatever the builder returned: nothing is packaged and nothing is written. The step
  that writes, alone: it writes the bytes to the path it is given when requested, does
  nothing when not requested, and leaves the state as it is when it fails.
\<close>

theorem bundle_overwrites_worker_bundle:
  assumes "createUploadWorkerBundleContents (createWorkerUploadForm E) (boundary E) (cwd E)
             (files st) b = Inr bytes"
    and "open_for_write (cwd E) (files st) ''_worker.bundle'' = Inr a"
  shows "a = abs_path (''_worker.bundle'' # start_dir (cwd E) ''_worker.bundle'')
         \<and> (\<forall>args st0 d1.
               \<not> missingInput (cwd E) args (files st0)
               \<and> extract_d1Databases (bindings args) = Inr d1
               \<and> build E args d1 (announced E args st0) = (Inr (Some b), st)
               \<and> experimentalWorkerBundle args \<longrightarrow>
               Handler E args st0
                 = (Inr (), emit (MetricsEvent ''build pages functions'')
                      (st\<lparr> files := (files st)(a \<mapsto> File bytes) \<rparr>))
               \<and> files (snd (Handler E args st0)) a = Some (File bytes)
               \<and> (\<forall>p. p \<noteq> a \<longrightarrow> files (snd (Handler E args st0)) p = files st p))
         \<and> (\<forall>args st0 d1 res st'.
               \<not> missingInput (cwd E) args (files st0)
               \<and> extract_d1Databases (bindings args) = Inr d1
               \<and> build E args d1 (announced E args st0) = (Inr res, st')
               \<and> \<not> experimentalWorkerBundle args \<longrightarrow>
               Handler E args st0 = (Inr (), emit (MetricsEvent ''build pages functions'') st')
               \<and> files (snd (Handler E args st0)) = files st')
         \<and> (\<forall>out a'.
               open_for_write (cwd E) (files st) out = Inr a' \<longrightarrow>
               writeBundle E True out (Some b) st
                 = (Inr (), st\<lparr> files := (files st)(a' \<mapsto> File bytes) \<rparr>))
         \<and> (\<forall>out res. writeBundle E False out res st = (Inr (), st))
         \<and> (\<forall>requested out res e st'.
               writeBundle E requested out res st = (Inl e, st') \<longrightarrow> st' = st)"
proof -
  have target: "a = abs_path (''_worker.bundle'' # start_dir (cwd E) ''_worker.bundle'')"
    using assms(2) by (rule open_for_write_worker_bundle)
  have requested:
    "Handler E args st0
       = (Inr (), emit (MetricsEvent ''build pages functions'')
            (st\<lparr> files := (files st)(a \<mapsto> File bytes) \<rparr>))
     \<and> files (snd (Handler E args st0)) a = Some (File bytes)
     \<and> (\<forall>p. p \<noteq> a \<longrightarrow> files (snd (Handler E args st0)) p = files st p)"
    if "\<not> missingInput (cwd E) args (files st0)"
      and "extract_d1Databases (bindings args) = Inr d1"
      and "build E args d1 (announced E args st0) = (Inr (Some b), st)"
      and "experimentalWorkerBundle args"
    for args st0 d1
    using Handler_writes [OF that assms] by simp
  have not_requested:
    "Handler E args st0 = (Inr (), emit (MetricsEvent ''build pages functions'') st')
     \<and> files (snd (Handler E args st0)) = files st'"
    if "\<not> missingInput (cwd E) args (files st0)"
      and "extract_d1Databases (bindings args) = Inr d1"
      and "build E args d1 (announced E args st0) = (Inr res, st')"
      and "\<not> experimentalWorkerBundle args"
    for args st0 d1 res st'
    using Handler_does_not_write [OF that] by simp
  have step: "writeBundle E True out (Some b) st
                = (Inr (), st\<lparr> files := (files st)(a' \<mapsto> File bytes) \<rparr>)"
    if "open_for_write (cwd E) (files st) out = Inr a'" for out a'
    using assms(1) that by (rule writeBundle_requested)
  from target requested not_requested step writeBundle_not_requested writeBundle_failed
  show ?thesis
    by (intro conjI allI impI) blast+
qed

theorem bundle_overwrites_worker_bundle_witness:
  "createUploadWorkerBundleContents (createWorkerUploadForm example_env) (boundary example_env)
       (cwd example_env) (files built_state) built_bundle
     = Inr example_payload
   \<and> open_for_write (cwd example_env) (files built_state) ''_worker.bundle''
       = Inr ''/proj/_worker.bundle''
   \<and> \<not> missingInput (cwd example_env) args_bundle (files (state0 fs_old_bundle))
   \<and> extract_d1Databases (bindings args_bundle) = Inr None
   \<and> build example_env args_bundle None
         (announced example_env args_bundle (state0 fs_old_bundle))
       = (Inr (Some built_bundle), built_state)
   \<and> experimentalWorkerBundle args_bundle
   \<and> files built_state ''/proj/_worker.bundle'' = Some (File old_bundle)
   \<and> length example_payload < length old_bundle
   \<and> fst (Handler example_env args_bundle (state0 fs_old_bundle)) = Inr ()
   \<and> files (snd (Handler example_env args_bundle (state0 fs_old_bundle)))
       = fs_built(''/proj/_worker.bundle'' \<mapsto> File example_payload)
   \<and> \<not> missingInput (cwd example_env) args_raw_outfile (files (state0 fs_both))
   \<and> extract_d1Databases (bindings args_raw_outfile) = Inr None
   \<and> \<not> experimentalWorkerBundle args_raw_outfile
   \<and> fst (Handler example_env args_raw_outfile (state0 fs_both)) = Inr ()
   \<and> files (snd (Handler example_env args_raw_outfile (state0 fs_both)))
       = fs_both(''/tmp/bundledWorker-0.42.mjs'' \<mapsto> File ''export default {};'')"
proof -
  note t = bundle_overwrites_worker_bundle
    [where E = example_env and st = built_state and b = built_bundle
       and bytes = example_payload and a = "''/proj/_worker.bundle''",
     OF example_packaging example_target(1)]
  from t args_bundle_passes(1,2,3) example_build
  have "Handler example_env args_bundle (state0 fs_old_bundle)
          = (Inr (), emit (MetricsEvent ''build pages functions'')
               (built_state\<lparr> files := (files built_state)(''/proj/_worker.bundle''
                                         \<mapsto> File example_payload) \<rparr>))"
    by blast
  then have a: "fst (Handler example_env args_bundle (state0 fs_old_bundle)) = Inr ()"
    "files (snd (Handler example_env args_bundle (state0 fs_old_bundle)))
       = fs_built(''/proj/_worker.bundle'' \<mapsto> File example_payload)"
    by (simp_all add: built_state_def)
  from t args_raw_outfile_passes(1,2,3) example_raw_build
  have "Handler example_env args_raw_outfile (state0 fs_both)
          = (Inr (), emit (MetricsEvent ''build pages functions'')
               \<lparr> files = fs_both(''/tmp/bundledWorker-0.42.mjs''
                                   \<mapsto> File ''export default {};''),
                 events = [BuildRawWorkerCall
                             (rawWorkerOptions example_env args_raw_outfile None
                                ''/proj/public/_worker.js'')] \<rparr>)"
    by blast
  then have b: "fst (Handler example_env args_raw_outfile (state0 fs_both)) = Inr ()"
    "files (snd (Handler example_env args_raw_outfile (state0 fs_both)))
       = fs_both(''/tmp/bundledWorker-0.42.mjs'' \<mapsto> File ''export default {};'')"
    by simp_all
  show ?thesis
    using example_packaging example_target args_bundle_passes(1,2,3) example_build
      example_payload_shorter a args_raw_outfile_passes(1,2,3) b
    by simp
qed

text \<open>
  C9, as it is stated, fails: a run that builds the functions, names the output file
  \<^verbatim>\<open>dist.js\<close> and asks for the bundle ends well, and the bytes of the packager are in
  \<^verbatim>\<open>_worker.bundle\<close>; there is no \<^verbatim>\<open>dist.js\<close>.
\<close>

theorem bundle_not_written_to_configured_outfile:
  "outfile args_functions_bundle = ''dist.js''
   \<and> experimentalWorkerBundle args_functions_bundle
   \<and> fst (Handler example_env args_functions_bundle (state0 fs_functions)) = Inr ()
   \<and> files (snd (Handler example_env args_functions_bundle (state0 fs_functions)))
         ''/proj/dist.js'' = None
   \<and> files (snd (Handler example_env args_functions_bundle (state0 fs_functions)))
         ''/proj/_worker.bundle'' = Some (File functions_payload)"
proof -
  have p: "createUploadWorkerBundleContents (createWorkerUploadForm example_env)
             (boundary example_env) (cwd example_env)
             (files \<lparr> files = fs_functions_built,
                      events = [BuildFunctionsCall
                                  (functionsOptions example_env args_functions_bundle None)] \<rparr>)
             functions_bundle
           = Inr functions_payload"
    using example_functions_packaging by simp
  have w: "open_for_write (cwd example_env)
             (files \<lparr> files = fs_functions_built,
                      events = [BuildFunctionsCall
                                  (functionsOptions example_env args_functions_bundle None)] \<rparr>)
             ''_worker.bundle''
           = Inr ''/proj/_worker.bundle''"
    using example_functions_target(1) by simp
  note h = Handler_writes
    [OF args_functions_bundle_passes(1,2) example_functions_build
        args_functions_bundle_passes(3) p w]
  show ?thesis
    using args_functions_bundle_passes(3,4) example_functions_target(2)
    unfolding h by simp
qed

text \<open>
  C10, as the code has it. \<^verbatim>\<open>Options\<close> gives the output file the default
  \<^verbatim>\<open>_worker.js\<close>. With the bundle mode the output path is \<^verbatim>\<open>_worker.bundle\<close>
  whatever path was given, by default or by the user: the given path changes nothing in the
  run, the builders write to a temporary file, and a run that succeeds writes the bundle to
  \<^verbatim>\<open>_worker.bundle\<close>. Without the bundle mode the handler writes no file itself; the
  given path, or the default, is the output file handed to the functions builder, and where
  a directory of static files is given, so that the raw worker is built, the given path
  changes nothing in the run: the builder of the raw worker is handed a temporary file.
\<close>

theorem outfile_in_each_mode:
  "outfile (Options flags) = (case flag_outfile flags of None \<Rightarrow> ''_worker.js'' | Some p \<Rightarrow> p)
   \<and> effective_outfile args
       = (if experimentalWorkerBundle args then ''_worker.bundle'' else outfile args)
   \<and> fn_outfile (functionsOptions E args d1)
       = (if experimentalWorkerBundle args
          then join [tmpdir E, ''./functionsWorker-'' @ random E @ ''.js'']
          else outfile args)
   \<and> rw_outfile (rawWorkerOptions E args d1 p)
       = join [tmpdir E, ''./bundledWorker-'' @ random E @ ''.mjs'']
   \<and> (\<forall>out st. experimentalWorkerBundle args \<longrightarrow>
         Handler E (args\<lparr> outfile := out \<rparr>) st = Handler E args st)
   \<and> (\<forall>out st. truthy_opt (directory args) \<longrightarrow>
         Handler E (args\<lparr> outfile := out \<rparr>) st = Handler E args st)
   \<and> (\<forall>st0 b st bytes a.
         \<not> missingInput (cwd E) args (files st0)
         \<and> extract_d1Databases (bindings args) = Inr d1
         \<and> build E args d1 (announced E args st0) = (Inr (Some b), st)
         \<and> experimentalWorkerBundle args
         \<and> createUploadWorkerBundleContents (createWorkerUploadForm E) (boundary E) (cwd E)
               (files st) b = Inr bytes
         \<and> open_for_write (cwd E) (files st) ''_worker.bundle'' = Inr a
         \<longrightarrow>
         files (snd (Handler E args st0)) = (files st)(a \<mapsto> File bytes))
   \<and> (\<forall>st0 res st.
         \<not> missingInput (cwd E) args (files st0)
         \<and> extract_d1Databases (bindings args) = Inr d1
         \<and> build E args d1 (announced E args st0) = (Inr res, st)
         \<and> \<not> experimentalWorkerBundle args
         \<longrightarrow>
         files (snd (Handler E args st0)) = files st)"
proof -
  have a: "outfile (Options flags)
             = (case flag_outfile flags of None \<Rightarrow> ''_worker.js'' | Some p \<Rightarrow> p)"
    by (simp add: Options_def default_to_def)
  have b: "effective_outfile args
             = (if experimentalWorkerBundle args then ''_worker.bundle'' else outfile args)"
    by (simp add: effective_outfile_def)
  have c: "fn_outfile (functionsOptions E args d1)
             = (if experimentalWorkerBundle args
                then join [tmpdir E, ''./functionsWorker-'' @ random E @ ''.js'']
                else outfile args)"
    by (simp add: functionsOptions_def effective_outfile_def)
  have d: "rw_outfile (rawWorkerOptions E args d1 p)
             = join [tmpdir E, ''./bundledWorker-'' @ random E @ ''.mjs'']"
    by (simp add: rawWorkerOptions_def)
  have e: "Handler E (args\<lparr> outfile := out \<rparr>) st = Handler E args st"
    if "experimentalWorkerBundle args" for out st
    by (rule Handler_outfile) (rule build_outfile_bundle [OF that])
  have f: "Handler E (args\<lparr> outfile := out \<rparr>) st = Handler E args st"
    if "truthy_opt (directory args)" for out st
    by (rule Handler_outfile) (rule build_outfile_raw [OF that])
  have g: "files (snd (Handler E args st0)) = (files st)(a \<mapsto> File bytes)"
    if "\<not> missingInput (cwd E) args (files st0)"
      and "extract_d1Databases (bindings args) = Inr d1"
      and "build E args d1 (announced E args st0) = (Inr (Some b), st)"
      and "experimentalWorkerBundle args"
      and "createUploadWorkerBundleContents (createWorkerUploadForm E) (boundary E) (cwd E)
             (files st) b = Inr bytes"
      and "open_for_write (cwd E) (files st) ''_worker.bundle'' = Inr a"
    for st0 b st bytes a
    using Handler_writes [OF that] by simp
  have h: "files (snd (Handler E args st0)) = files st"
    if "\<not> missingInput (cwd E) args (files st0)"
      and "extract_d1Databases (bindings args) = Inr d1"
      and "build E args d1 (announced E args st0) = (Inr res, st)"
      and "\<not> experimentalWorkerBundle args"
    for st0 res st
    using Handler_does_not_write [OF that] by simp
  from a b c d e f g h show ?thesis
    by (intro conjI allI impI) blast+
qed

theorem outfile_in_each_mode_witness:
  "experimentalWorkerBundle args_bundle
   \<and> outfile args_bundle = ''out.js''
   \<and> Handler example_env (args_bundle\<lparr> outfile := ''_worker.js'' \<rparr>) (state0 fs_old_bundle)
       = Handler example_env args_bundle (state0 fs_old_bundle)
   \<and> \<not> missingInput (cwd example_env) args_bundle (files (state0 fs_old_bundle))
   \<and> extract_d1Databases (bindings args_bundle) = Inr None
   \<and> build example_env args_bundle None
         (announced example_env args_bundle (state0 fs_old_bundle))
       = (Inr (Some built_bundle), built_state)
   \<and> createUploadWorkerBundleContents (createWorkerUploadForm example_env)
         (boundary example_env) (cwd example_env) (files built_state) built_bundle
       = Inr example_payload
   \<and> open_for_write (cwd example_env) (files built_state) ''_worker.bundle''
       = Inr ''/proj/_worker.bundle''
   \<and> files (snd (Handler example_env args_bundle (state0 fs_old_bundle)))
       = fs_built(''/proj/_worker.bundle'' \<mapsto> File example_payload)
   \<and> truthy_opt (directory args_raw_outfile)
   \<and> outfile args_raw_outfile = ''out.js''
   \<and> Handler example_env (args_raw_outfile\<lparr> outfile := ''_worker.js'' \<rparr>) (state0 fs_both)
       = Handler example_env args_raw_outfile (state0 fs_both)
   \<and> \<not> missingInput (cwd example_env) args_raw_outfile (files (state0 fs_both))
   \<and> extract_d1Databases (bindings args_raw_outfile) = Inr None
   \<and> \<not> experimentalWorkerBundle args_raw_outfile
   \<and> files (snd (Handler example_env args_raw_outfile (state0 fs_both)))
       = fs_both(''/tmp/bundledWorker-0.42.mjs'' \<mapsto> File ''export default {};'')"
proof -
  note t = outfile_in_each_mode
    [where E = example_env and args = args_bundle and ?d1.0 = None]
  note u = outfile_in_each_mode
    [where E = example_env and args = args_raw_outfile and ?d1.0 = None]
  from t args_bundle_passes(3)
  have i: "Handler example_env (args_bundle\<lparr> outfile := ''_worker.js'' \<rparr>) (state0 fs_old_bundle)
             = Handler example_env args_bundle (state0 fs_old_bundle)"
    by blast
  from t args_bundle_passes(1,2,3) example_build example_packaging example_target(1)
  have "files (snd (Handler example_env args_bundle (state0 fs_old_bundle)))
          = (files built_state)(''/proj/_worker.bundle'' \<mapsto> File example_payload)"
    by blast
  then have h: "files (snd (Handler example_env args_bundle (state0 fs_old_bundle)))
                  = fs_built(''/proj/_worker.bundle'' \<mapsto> File example_payload)"
    by (simp add: built_state_def)
  from u args_raw_outfile_passes(5)
  have j: "Handler example_env (args_raw_outfile\<lparr> outfile := ''_worker.js'' \<rparr>) (state0 fs_both)
             = Handler example_env args_raw_outfile (state0 fs_both)"
    by blast
  from u args_raw_outfile_passes(1,2,3) example_raw_build
  have "files (snd (Handler example_env args_raw_outfile (state0 fs_both)))
          = files \<lparr> files = fs_both(''/tmp/bundledWorker-0.42.mjs''
                                      \<mapsto> File ''export default {};''),
                    events = [BuildRawWorkerCall
                                (rawWorkerOptions example_env args_raw_outfile None
                                   ''/proj/public/_worker.js'')] \<rparr>"
    by blast
  then have k: "files (snd (Handler example_env args_raw_outfile (state0 fs_both)))
                  = fs_both(''/tmp/bundledWorker-0.42.mjs'' \<mapsto> File ''export default {};'')"
    by simp
  show ?thesis
    using args_bundle_passes example_build example_packaging example_target(1) i h
      args_raw_outfile_passes j k
    by simp
qed

text \<open>
  C10, as it is stated, fails in both modes. With the bundle mode, a run that names the
  output file \<^verbatim>\<open>out.js\<close> writes the bundle to \<^verbatim>\<open>_worker.bundle\<close> all the same.
  Without it, a run that builds the raw worker and names the output file \<^verbatim>\<open>out.js\<close>
  ends well and the only file written is the temporary file of the builder. No
  \<^verbatim>\<open>out.js\<close> appears in either.
\<close>

theorem explicit_outfile_is_not_the_write_target:
  "outfile args_bundle = ''out.js''
   \<and> experimentalWorkerBundle args_bundle
   \<and> fst (Handler example_env args_bundle (state0 fs_old_bundle)) = Inr ()
   \<and> files (snd (Handler example_env args_bundle (state0 fs_old_bundle))) ''/proj/out.js'' = None
   \<and> files (snd (Handler example_env args_bundle (state0 fs_old_bundle))) ''/proj/_worker.bundle''
       = Some (File example_payload)
   \<and> outfile args_raw_outfile = ''out.js''
   \<and> \<not> experimentalWorkerBundle args_raw_outfile
   \<and> fst (Handler example_env args_raw_outfile (state0 fs_both)) = Inr ()
   \<and> files (snd (Handler example_env args_raw_outfile (state0 fs_both))) ''/proj/out.js'' = None
   \<and> files (snd (Handler example_env args_raw_outfile (state0 fs_both)))
       = fs_both(''/tmp/bundledWorker-0.42.mjs'' \<mapsto> File ''export default {};'')"
proof -
  note h = Handler_writes
    [OF args_bundle_passes(1,2) example_build args_bundle_passes(3) example_packaging
        example_target(1)]
  note r = Handler_does_not_write
    [OF args_raw_outfile_passes(1,2) example_raw_build args_raw_outfile_passes(3)]
  have n: "fs_built ''/proj/out.js'' = None"
    "fs_both ''/proj/out.js'' = None"
    by (simp_all add: fs_built_def fs_old_bundle_def fs_both_def fs_functions_def fs_bare_def)
  show ?thesis
    using args_bundle_passes(3,4) args_raw_outfile_passes(3,4) n
    unfolding h r by (simp add: built_state_def)
qed

end
